theory Spec2Isabelle
  imports Main "HOL-Library.Sublist"
begin

section \<open>Sitelutions DDNS updater: the update operation and its scheduler\<close>

text \<open>
  A shallow embedding of \<^verbatim>\<open>ddns_updater.py\<close> (class \<^verbatim>\<open>DDNSUpdaterApp\<close>).
  The object's attributes and the widgets it reads and writes are one record, every
  method takes the record and returns the updated one. What the program takes from
  outside is explicit:
  \<^item> the network is a function from the request sent to what \<^verbatim>\<open>requests.get\<close> does
    with it (it raises a \<^verbatim>\<open>RequestException\<close>, or returns a response);
  \<^item> the wall clock is a function from the number of lines already in the log widget
    to the timestamp \<^verbatim>\<open>datetime.now().strftime(...)\<close> gives for the next one;
  \<^item> the Tk timer queue (\<^verbatim>\<open>root.after\<close>, \<^verbatim>\<open>root.after_cancel\<close>) and the settings file
    are fields of the record, next to the list of the HTTP requests sent so far.
  Python strings are modelled as \<^typ>\<open>string\<close>; writing the settings file is taken to
  succeed.
\<close>

subsection \<open>The outside world\<close>

record http_request =
  url :: string
  params :: "(string \<times> string) list"
  timeout :: nat

record response =
  status_code :: nat
  reason :: string
  resp_url :: string
  resp_text :: string

datatype http_reply = RequestException string | Returns response

record env =
  net :: "http_request \<Rightarrow> http_reply"
  clock :: "nat \<Rightarrow> string"

datatype widget_state = Normal | Disabled | Readonly

datatype config_file = NoFile | Unreadable string | Settings "(string \<times> string) list"

subsection \<open>The application object\<close>

record app =
  id_entry :: string
  email_entry :: string
  apikey_entry :: string
  interval_var :: string
  is_running :: bool
  after_id :: "nat option"
  log_area :: "string list"
  start_button :: widget_state
  stop_button :: widget_state
  manual_button :: widget_state
  id_entry_state :: widget_state
  email_entry_state :: widget_state
  apikey_entry_state :: widget_state
  interval_combo :: widget_state
  timers :: "(nat \<times> int) list"
  next_timer :: nat
  sent :: "http_request list"
  disk :: config_file

subsection \<open>Library functions the methods call\<close>

text \<open>\<^verbatim>\<open>str.strip()\<close>: the white space of Python among the ASCII characters.\<close>

definition isspace :: "char \<Rightarrow> bool" where
  "isspace c = (c \<in> set [CHR 0x09, CHR 0x0A, CHR 0x0B, CHR 0x0C, CHR 0x0D,
                          CHR 0x1C, CHR 0x1D, CHR 0x1E, CHR 0x1F, CHR 0x20])"

definition strip :: "string \<Rightarrow> string" where
  "strip s = rev (dropWhile isspace (rev (dropWhile isspace s)))"

text \<open>\<^verbatim>\<open>str(n)\<close> of a status code, for the text of an \<^verbatim>\<open>HTTPError\<close>.\<close>

fun str_nat :: "nat \<Rightarrow> string" where
  "str_nat n = (if n < 10 then [''0123456789'' ! n]
                else str_nat (n div 10) @ [''0123456789'' ! (n mod 10)])"

declare str_nat.simps [simp del]

text \<open>
  \<^verbatim>\<open>Response.raise_for_status()\<close> of the requests library: an \<^verbatim>\<open>HTTPError\<close> for a
  status from 400 to 599, nothing otherwise. \<open>Some\<close> is the text of the exception raised.
\<close>

definition raise_for_status :: "response \<Rightarrow> string option" where
  "raise_for_status r =
     (if 400 \<le> status_code r \<and> status_code r < 500 then
        Some (str_nat (status_code r) @ '' Client Error: '' @ reason r @ '' for url: '' @ resp_url r)
      else if 500 \<le> status_code r \<and> status_code r < 600 then
        Some (str_nat (status_code r) @ '' Server Error: '' @ reason r @ '' for url: '' @ resp_url r)
      else None)"

text \<open>\<^verbatim>\<open>requests.get\<close>: the request goes out (it is recorded), the world answers.\<close>

definition requests_get :: "env \<Rightarrow> app \<Rightarrow> http_request \<Rightarrow> app \<times> http_reply" where
  "requests_get e a rq = (a\<lparr>sent := sent a @ [rq]\<rparr>, net e rq)"

subsection \<open>The methods\<close>

definition log_message :: "env \<Rightarrow> app \<Rightarrow> string \<Rightarrow> app" where
  "log_message e a message =
     (let timestamp = clock e (length (log_area a));
          full_message = ''['' @ timestamp @ ''] '' @ message @ [CHR 0x0A]
      in a\<lparr>log_area := log_area a @ [full_message]\<rparr>)"

definition myip_request :: http_request where
  "myip_request = \<lparr>url = ''https://api2.sitelutions.com/myip'', params = [], timeout = 10\<rparr>"

definition dnsup_request :: "string \<Rightarrow> string \<Rightarrow> string \<Rightarrow> string \<Rightarrow> http_request" where
  "dnsup_request email api_key record_id public_ip =
     \<lparr>url = ''https://api2.sitelutions.com/dnsup'',
      params = [(''user'', email), (''pass'', api_key), (''id'', record_id),
                (''ip'', public_ip), (''ttl'', ''60'')],
      timeout = 10\<rparr>"

definition perform_update :: "env \<Rightarrow> app \<Rightarrow> app" where
  "perform_update e a =
     (let record_id = id_entry a; email = email_entry a; api_key = apikey_entry a in
      if \<not> (record_id \<noteq> [] \<and> email \<noteq> [] \<and> api_key \<noteq> []) then
        log_message e a ''ERROR: Record ID, Email, and API Key fields are required.''
      else
        let a1 = log_message e a ''Fetching public IP address from api2.sitelutions.com/myip...'' in
        (case requests_get e a1 myip_request of
          (a2, RequestException ex) \<Rightarrow>
            log_message e a2 (''ERROR: Could not get public IP. Details: '' @ ex)
        | (a2, Returns r1) \<Rightarrow>
            (let public_ip = strip (resp_text r1);
                 a3 = log_message e a2 (''Public IP found: '' @ public_ip);
                 a4 = log_message e a3 ''Sending DNS update request to Sitelutions API...''
             in (case requests_get e a4 (dnsup_request email api_key record_id public_ip) of
                  (a5, RequestException ex) \<Rightarrow>
                    log_message e a5 (''ERROR: API request failed. Details: '' @ ex)
                | (a5, Returns r2) \<Rightarrow>
                    (case raise_for_status r2 of
                       Some ex \<Rightarrow>
                         log_message e a5 (''ERROR: API request failed. Details: '' @ ex)
                     | None \<Rightarrow>
                         (let response_text = strip (resp_text r2)
                          in log_message e a5 (''SUCCESS: Server Response: '' @ response_text)))))))"

text \<open>\<^verbatim>\<open>root.after(ms, self.auto_update_loop)\<close>: a new timer joins the queue, its id is returned.\<close>

definition root_after :: "app \<Rightarrow> int \<Rightarrow> app \<times> nat" where
  "root_after a ms =
     (a\<lparr>timers := timers a @ [(next_timer a, ms)], next_timer := Suc (next_timer a)\<rparr>,
      next_timer a)"

text \<open>\<^verbatim>\<open>root.after_cancel(id)\<close>: the timer leaves the queue if it is still there.\<close>

definition root_after_cancel :: "app \<Rightarrow> nat \<Rightarrow> app" where
  "root_after_cancel a tid = a\<lparr>timers := filter (\<lambda>t. fst t \<noteq> tid) (timers a)\<rparr>"

definition interval_map :: "(string \<times> int) list" where
  "interval_map = [(''60 minutes'', 3600000), (''4 hours'', 14400000),
                   (''6 hours'', 21600000), (''24 hours'', 86400000)]"

definition get_interval_ms :: "app \<Rightarrow> int" where
  "get_interval_ms a =
     (case map_of interval_map (interval_var a) of Some ms \<Rightarrow> ms | None \<Rightarrow> 0)"

definition auto_update_loop :: "env \<Rightarrow> app \<Rightarrow> app" where
  "auto_update_loop e a =
     (let a1 = perform_update e a;
          interval_ms = get_interval_ms a1
      in if interval_ms > 0 \<and> is_running a1 then
           (case root_after a1 interval_ms of (a2, tid) \<Rightarrow> a2\<lparr>after_id := Some tid\<rparr>)
         else a1)"

definition set_controls_state :: "app \<Rightarrow> string \<Rightarrow> app" where
  "set_controls_state a state =
     (if state = ''running'' then
        a\<lparr>start_button := Disabled, stop_button := Normal, manual_button := Disabled,
          id_entry_state := Disabled, email_entry_state := Disabled,
          apikey_entry_state := Disabled, interval_combo := Disabled\<rparr>
      else
        a\<lparr>start_button := Normal, stop_button := Disabled, manual_button := Normal,
          id_entry_state := Normal, email_entry_state := Normal,
          apikey_entry_state := Normal, interval_combo := Readonly\<rparr>)"

definition save_settings :: "env \<Rightarrow> app \<Rightarrow> app" where
  "save_settings e a =
     (let settings = [(''record_id'', id_entry a), (''email'', email_entry a),
                      (''api_key'', apikey_entry a), (''interval'', interval_var a)]
      in log_message e (a\<lparr>disk := Settings settings\<rparr>) ''Settings saved.'')"

definition start_auto_update :: "env \<Rightarrow> app \<Rightarrow> app" where
  "start_auto_update e a =
     (if interval_var a = [] then
        log_message e a ''ERROR: Please select an update interval.''
      else
        let a1 = a\<lparr>is_running := True\<rparr>;
            a2 = set_controls_state a1 ''running'';
            a3 = save_settings e a2;
            a4 = log_message e a3
                   (''Automatic updates started with interval: '' @ interval_var a3 @ ''.'')
        in auto_update_loop e a4)"

definition stop_auto_update :: "env \<Rightarrow> app \<Rightarrow> app" where
  "stop_auto_update e a =
     (let a1 = a\<lparr>is_running := False\<rparr>;
          a2 = (case after_id a1 of
                  Some tid \<Rightarrow> (root_after_cancel a1 tid)\<lparr>after_id := None\<rparr>
                | None \<Rightarrow> a1);
          a3 = set_controls_state a2 ''stopped''
      in log_message e a3 ''Automatic updates stopped.'')"

text \<open>The values of the interval combobox (\<^verbatim>\<open>create_widgets\<close>).\<close>

definition interval_values :: "string list" where
  "interval_values = [''60 minutes'', ''4 hours'', ''6 hours'', ''24 hours'']"

text \<open>
  \<^verbatim>\<open>settings.get(key, "")\<close> on the dictionary read from the settings file.
\<close>

definition settings_get :: "(string \<times> string) list \<Rightarrow> string \<Rightarrow> string" where
  "settings_get settings k = (case map_of settings k of Some v \<Rightarrow> v | None \<Rightarrow> [])"

text \<open>
  \<^verbatim>\<open>load_settings\<close>: \<^verbatim>\<open>entry.insert(0, s)\<close> puts \<open>s\<close> in front of the entry's text; the
  interval is taken only when the combobox offers it. A file that cannot be opened or
  parsed raises before any field is touched, and the exception's text is logged. The
  file's content is taken to be a JSON object of strings, as \<^verbatim>\<open>save_settings\<close> writes it.
\<close>

definition load_settings :: "env \<Rightarrow> app \<Rightarrow> app" where
  "load_settings e a =
     (case disk a of
        NoFile \<Rightarrow> a
      | Unreadable ex \<Rightarrow> log_message e a (''Could not load settings file. '' @ ex)
      | Settings settings \<Rightarrow>
          (let a1 = a\<lparr>id_entry := settings_get settings ''record_id'' @ id_entry a\<rparr>;
               a2 = a1\<lparr>email_entry := settings_get settings ''email'' @ email_entry a1\<rparr>;
               a3 = a2\<lparr>apikey_entry := settings_get settings ''api_key'' @ apikey_entry a2\<rparr>;
               interval = settings_get settings ''interval'';
               a4 = (if interval \<in> set interval_values then a3\<lparr>interval_var := interval\<rparr>
                     else a3)
           in log_message e a4 ''Settings loaded successfully.''))"

text \<open>
  The object as \<^verbatim>\<open>__init__\<close> and \<^verbatim>\<open>create_widgets\<close> leave it before the settings are
  loaded: empty entries, no interval chosen, not running, no timer; the Stop button is
  disabled and the interval combobox is read-only.
\<close>

definition new_app :: "config_file \<Rightarrow> app" where
  "new_app d =
     \<lparr>id_entry = [], email_entry = [], apikey_entry = [], interval_var = [],
      is_running = False, after_id = None, log_area = [],
      start_button = Normal, stop_button = Disabled, manual_button = Normal,
      id_entry_state = Normal, email_entry_state = Normal, apikey_entry_state = Normal,
      interval_combo = Readonly,
      timers = [], next_timer = 0, sent = [], disk = d\<rparr>"

definition init :: "env \<Rightarrow> config_file \<Rightarrow> app" where
  "init e d = load_settings e (new_app d)"

text \<open>
  The Tk main loop runs a pending timer: it leaves the queue and its callback, always
  \<^verbatim>\<open>auto_update_loop\<close>, is called. A timer that is not pending does nothing.
\<close>

definition timer_fires :: "env \<Rightarrow> nat \<Rightarrow> app \<Rightarrow> app" where
  "timer_fires e tid a =
     (if tid \<in> fst ` set (timers a) then auto_update_loop e (root_after_cancel a tid) else a)"

text \<open>The requests to the update endpoint among the requests sent so far.\<close>

definition update_requests :: "app \<Rightarrow> http_request list" where
  "update_requests a = filter (\<lambda>rq. url rq = ''https://api2.sitelutions.com/dnsup'') (sent a)"

text \<open>Every pending timer has a delay above zero.\<close>

definition timers_positive :: "app \<Rightarrow> bool" where
  "timers_positive a = list_all (\<lambda>t. 0 < snd t) (timers a)"

text \<open>
  The object \<^verbatim>\<open>start_auto_update\<close> hands to \<^verbatim>\<open>auto_update_loop\<close> once it has accepted
  the interval: running, controls switched, settings saved, the start logged.
\<close>

definition started :: "env \<Rightarrow> app \<Rightarrow> app" where
  "started e a =
     log_message e (save_settings e (set_controls_state (a\<lparr>is_running := True\<rparr>) ''running''))
       (''Automatic updates started with interval: '' @ interval_var a @ ''.'')"

subsection \<open>Concrete worlds and objects for the runs evaluated below\<close>

definition example_clock :: "nat \<Rightarrow> string" where
  "example_clock n = ''2025-10-16 12:00:00''"

definition reply_with :: "nat \<Rightarrow> string \<Rightarrow> http_request \<Rightarrow> string \<Rightarrow> http_reply" where
  "reply_with code why rq body =
     Returns \<lparr>status_code = code, reason = why, resp_url = url rq, resp_text = body\<rparr>"

text \<open>The resolver answers 203.0.113.5, the update endpoint echoes the address it is given.\<close>

definition echo_net :: "http_request \<Rightarrow> http_reply" where
  "echo_net rq =
     (if url rq = ''https://api2.sitelutions.com/myip'' then reply_with 200 ''OK'' rq ''203.0.113.5''
      else reply_with 200 ''OK'' rq (''good '' @ settings_get (params rq) ''ip''))"

definition echo_env :: env where
  "echo_env = \<lparr>net = echo_net, clock = example_clock\<rparr>"

text \<open>No route to either endpoint.\<close>

definition down_env :: env where
  "down_env = \<lparr>net = (\<lambda>rq. RequestException ''Connection refused''), clock = example_clock\<rparr>"

text \<open>The resolver answers, the update request runs into its 10 second timeout.\<close>

definition timeout_net :: "http_request \<Rightarrow> http_reply" where
  "timeout_net rq =
     (if url rq = ''https://api2.sitelutions.com/myip'' then reply_with 200 ''OK'' rq ''203.0.113.5''
      else RequestException ''Read timed out. (read timeout=10)'')"

definition timeout_env :: env where
  "timeout_env = \<lparr>net = timeout_net, clock = example_clock\<rparr>"

text \<open>The resolver's endpoint answers 404 with an error page, the update endpoint echoes.\<close>

definition notfound_net :: "http_request \<Rightarrow> http_reply" where
  "notfound_net rq =
     (if url rq = ''https://api2.sitelutions.com/myip'' then
        reply_with 404 ''Not Found'' rq (''<h1>Not Found</h1>'' @ [CHR 0x0A])
      else reply_with 200 ''OK'' rq (''good '' @ settings_get (params rq) ''ip''))"

definition notfound_env :: env where
  "notfound_env = \<lparr>net = notfound_net, clock = example_clock\<rparr>"

text \<open>The resolver answers, the update endpoint answers 304 with an empty body.\<close>

definition notmodified_net :: "http_request \<Rightarrow> http_reply" where
  "notmodified_net rq =
     (if url rq = ''https://api2.sitelutions.com/myip'' then reply_with 200 ''OK'' rq ''203.0.113.5''
      else reply_with 304 ''Not Modified'' rq [])"

definition notmodified_env :: env where
  "notmodified_env = \<lparr>net = notmodified_net, clock = example_clock\<rparr>"

text \<open>The resolver answers, the update endpoint answers 403.\<close>

definition forbidden_net :: "http_request \<Rightarrow> http_reply" where
  "forbidden_net rq =
     (if url rq = ''https://api2.sitelutions.com/myip'' then
        reply_with 200 ''OK'' rq (''203.0.113.5'' @ [CHR 0x0A])
      else reply_with 403 ''Forbidden'' rq ''denied'')"

definition forbidden_env :: env where
  "forbidden_env = \<lparr>net = forbidden_net, clock = example_clock\<rparr>"

text \<open>A fresh object with the three credential fields filled in, and variants of it.\<close>

definition example_app :: app where
  "example_app = (new_app NoFile)\<lparr>id_entry := ''42'', email_entry := ''a@b.com'', apikey_entry := ''k1''\<rparr>"

definition nosecret_app :: app where
  "nosecret_app = example_app\<lparr>apikey_entry := []\<rparr>"

definition four_hours_app :: app where
  "four_hours_app = example_app\<lparr>interval_var := ''4 hours''\<rparr>"

definition sixty_minutes_app :: app where
  "sixty_minutes_app = example_app\<lparr>interval_var := ''60 minutes''\<rparr>"

definition five_minutes_app :: app where
  "five_minutes_app = example_app\<lparr>interval_var := ''5 minutes''\<rparr>"

section \<open>What one run of the update operation does\<close>

text \<open>
  The net effect of \<^verbatim>\<open>perform_update\<close> on each of its paths: the requests that went out
  and the messages handed to \<^verbatim>\<open>log_message\<close>, in order. Logging touches the log widget
  only, so it commutes with recording a request.
\<close>

lemma sent_log_message: "sent (log_message e a m) = sent a"
  by (simp add: log_message_def Let_def)

lemma log_message_sent:
  "log_message e (a\<lparr>sent := s\<rparr>) m = (log_message e a m)\<lparr>sent := s\<rparr>"
  by (simp add: log_message_def Let_def)

lemma log_area_log_message:
  "log_area (log_message e a m) =
     log_area a @ [''['' @ clock e (length (log_area a)) @ ''] '' @ m @ [CHR 0x0A]]"
  by (simp add: log_message_def Let_def)

lemma foldl_log_message_keeps:
  "sent (foldl (log_message e) a ms) = sent a"
  "is_running (foldl (log_message e) a ms) = is_running a"
  "interval_var (foldl (log_message e) a ms) = interval_var a"
  "timers (foldl (log_message e) a ms) = timers a"
  "next_timer (foldl (log_message e) a ms) = next_timer a"
  "after_id (foldl (log_message e) a ms) = after_id a"
  "start_button (foldl (log_message e) a ms) = start_button a"
  "stop_button (foldl (log_message e) a ms) = stop_button a"
  "manual_button (foldl (log_message e) a ms) = manual_button a"
  "id_entry (foldl (log_message e) a ms) = id_entry a"
  "email_entry (foldl (log_message e) a ms) = email_entry a"
  "apikey_entry (foldl (log_message e) a ms) = apikey_entry a"
  by (induction ms arbitrary: a) (simp_all add: log_message_def Let_def)

lemma foldl_log_message_frame:
  "foldl (log_message e) a ms = a\<lparr>log_area := log_area (foldl (log_message e) a ms)\<rparr>"
proof (induction ms arbitrary: a)
  case Nil
  show ?case by simp
next
  case (Cons m ms)
  have "foldl (log_message e) (log_message e a m) ms =
        (log_message e a m)\<lparr>log_area := log_area (foldl (log_message e) (log_message e a m) ms)\<rparr>"
    by (rule Cons.IH)
  also have "\<dots> = a\<lparr>log_area := log_area (foldl (log_message e) (log_message e a m) ms)\<rparr>"
    by (simp add: log_message_def Let_def)
  finally show ?case by simp
qed

lemmas log_simps = sent_log_message log_message_sent log_area_log_message

lemmas path_defs = perform_update_def requests_get_def Let_def sent_log_message log_message_sent

lemma perform_update_missing:
  "id_entry a = [] \<or> email_entry a = [] \<or> apikey_entry a = [] \<Longrightarrow>
   perform_update e a =
     log_message e a ''ERROR: Record ID, Email, and API Key fields are required.''"
  by (auto simp: perform_update_def Let_def)

lemma perform_update_resolver_raises:
  assumes "id_entry a \<noteq> []" "email_entry a \<noteq> []" "apikey_entry a \<noteq> []"
    and "net e myip_request = RequestException ex"
  shows "perform_update e a =
     foldl (log_message e) (a\<lparr>sent := sent a @ [myip_request]\<rparr>)
       [''Fetching public IP address from api2.sitelutions.com/myip...'',
        ''ERROR: Could not get public IP. Details: '' @ ex]"
  using assms by (simp add: path_defs)

lemma perform_update_updater_raises:
  assumes "id_entry a \<noteq> []" "email_entry a \<noteq> []" "apikey_entry a \<noteq> []"
    and "net e myip_request = Returns r1"
    and "net e (dnsup_request (email_entry a) (apikey_entry a) (id_entry a)
                 (strip (resp_text r1))) = RequestException ex"
  shows "perform_update e a =
     foldl (log_message e)
       (a\<lparr>sent := sent a @ [myip_request,
            dnsup_request (email_entry a) (apikey_entry a) (id_entry a) (strip (resp_text r1))]\<rparr>)
       [''Fetching public IP address from api2.sitelutions.com/myip...'',
        ''Public IP found: '' @ strip (resp_text r1),
        ''Sending DNS update request to Sitelutions API...'',
        ''ERROR: API request failed. Details: '' @ ex]"
  using assms by (simp add: path_defs)

lemma perform_update_http_error:
  assumes "id_entry a \<noteq> []" "email_entry a \<noteq> []" "apikey_entry a \<noteq> []"
    and "net e myip_request = Returns r1"
    and "net e (dnsup_request (email_entry a) (apikey_entry a) (id_entry a)
                 (strip (resp_text r1))) = Returns r2"
    and "raise_for_status r2 = Some ex"
  shows "perform_update e a =
     foldl (log_message e)
       (a\<lparr>sent := sent a @ [myip_request,
            dnsup_request (email_entry a) (apikey_entry a) (id_entry a) (strip (resp_text r1))]\<rparr>)
       [''Fetching public IP address from api2.sitelutions.com/myip...'',
        ''Public IP found: '' @ strip (resp_text r1),
        ''Sending DNS update request to Sitelutions API...'',
        ''ERROR: API request failed. Details: '' @ ex]"
  using assms by (simp add: path_defs)

lemma perform_update_success:
  assumes "id_entry a \<noteq> []" "email_entry a \<noteq> []" "apikey_entry a \<noteq> []"
    and "net e myip_request = Returns r1"
    and "net e (dnsup_request (email_entry a) (apikey_entry a) (id_entry a)
                 (strip (resp_text r1))) = Returns r2"
    and "raise_for_status r2 = None"
  shows "perform_update e a =
     foldl (log_message e)
       (a\<lparr>sent := sent a @ [myip_request,
            dnsup_request (email_entry a) (apikey_entry a) (id_entry a) (strip (resp_text r1))]\<rparr>)
       [''Fetching public IP address from api2.sitelutions.com/myip...'',
        ''Public IP found: '' @ strip (resp_text r1),
        ''Sending DNS update request to Sitelutions API...'',
        ''SUCCESS: Server Response: '' @ strip (resp_text r2)]"
  using assms by (simp add: path_defs)

text \<open>Every path has this shape: some requests are recorded, some messages are logged.\<close>

lemma perform_update_shape:
  "\<exists>rqs ms. perform_update e a = foldl (log_message e) (a\<lparr>sent := sent a @ rqs\<rparr>) ms"
proof (cases "id_entry a = [] \<or> email_entry a = [] \<or> apikey_entry a = []")
  case True
  have "perform_update e a = foldl (log_message e) (a\<lparr>sent := sent a @ []\<rparr>)
          [''ERROR: Record ID, Email, and API Key fields are required.'']"
    by (simp add: perform_update_missing [OF True])
  then show ?thesis by blast
next
  case False
  then have v: "id_entry a \<noteq> []" "email_entry a \<noteq> []" "apikey_entry a \<noteq> []"
    by simp_all
  show ?thesis
  proof (cases "net e myip_request")
    case (RequestException ex)
    show ?thesis using perform_update_resolver_raises [OF v RequestException] by blast
  next
    case (Returns r1)
    show ?thesis
    proof (cases "net e (dnsup_request (email_entry a) (apikey_entry a) (id_entry a)
                           (strip (resp_text r1)))")
      case (RequestException ex)
      show ?thesis using perform_update_updater_raises [OF v Returns RequestException] by blast
    next
      case r2: (Returns r2)
      show ?thesis
      proof (cases "raise_for_status r2")
        case None
        show ?thesis using perform_update_success [OF v Returns r2 None] by blast
      next
        case (Some ex)
        show ?thesis using perform_update_http_error [OF v Returns r2 Some] by blast
      qed
    qed
  qed
qed

lemma perform_update_keeps:
  "is_running (perform_update e a) = is_running a"
  "interval_var (perform_update e a) = interval_var a"
  "timers (perform_update e a) = timers a"
  "next_timer (perform_update e a) = next_timer a"
  "after_id (perform_update e a) = after_id a"
  "start_button (perform_update e a) = start_button a"
  "stop_button (perform_update e a) = stop_button a"
  "manual_button (perform_update e a) = manual_button a"
  "id_entry (perform_update e a) = id_entry a"
  "email_entry (perform_update e a) = email_entry a"
  "apikey_entry (perform_update e a) = apikey_entry a"
proof -
  obtain rqs ms where
    "perform_update e a = foldl (log_message e) (a\<lparr>sent := sent a @ rqs\<rparr>) ms"
    using perform_update_shape by blast
  then show
    "is_running (perform_update e a) = is_running a"
    "interval_var (perform_update e a) = interval_var a"
    "timers (perform_update e a) = timers a"
    "next_timer (perform_update e a) = next_timer a"
    "after_id (perform_update e a) = after_id a"
    "start_button (perform_update e a) = start_button a"
    "stop_button (perform_update e a) = stop_button a"
    "manual_button (perform_update e a) = manual_button a"
    "id_entry (perform_update e a) = id_entry a"
    "email_entry (perform_update e a) = email_entry a"
    "apikey_entry (perform_update e a) = apikey_entry a"
    by (simp_all add: foldl_log_message_keeps)
qed

lemma perform_update_frame:
  "perform_update e a =
     a\<lparr>log_area := log_area (perform_update e a), sent := sent (perform_update e a)\<rparr>"
proof -
  obtain rqs ms where
    eq: "perform_update e a = foldl (log_message e) (a\<lparr>sent := sent a @ rqs\<rparr>) ms"
    using perform_update_shape by blast
  define L where "L = log_area (foldl (log_message e) (a\<lparr>sent := sent a @ rqs\<rparr>) ms)"
  have "foldl (log_message e) (a\<lparr>sent := sent a @ rqs\<rparr>) ms =
        (a\<lparr>sent := sent a @ rqs\<rparr>)\<lparr>log_area := L\<rparr>"
    unfolding L_def by (rule foldl_log_message_frame)
  then have "perform_update e a = a\<lparr>log_area := L, sent := sent a @ rqs\<rparr>"
    by (simp add: eq)
  then show ?thesis by simp
qed

lemma get_interval_ms_perform_update:
  "get_interval_ms (perform_update e a) = get_interval_ms a"
  by (simp add: get_interval_ms_def perform_update_keeps)

lemma get_interval_ms_cases:
  "get_interval_ms a =
     (if interval_var a = ''60 minutes'' then 3600000
      else if interval_var a = ''4 hours'' then 14400000
      else if interval_var a = ''6 hours'' then 21600000
      else if interval_var a = ''24 hours'' then 86400000 else 0)"
  by (simp add: get_interval_ms_def interval_map_def)

lemma get_interval_ms_pos:
  "(0 < get_interval_ms a) = (interval_var a \<in> set interval_values)"
  by (auto simp: get_interval_ms_cases interval_values_def)

lemma get_interval_ms_unknown:
  "interval_var a \<notin> set interval_values \<Longrightarrow> get_interval_ms a = 0"
  by (auto simp: get_interval_ms_cases interval_values_def)

lemma auto_update_loop_eq:
  "auto_update_loop e a =
     (if 0 < get_interval_ms a \<and> is_running a then
        (perform_update e a)\<lparr>timers := timers a @ [(next_timer a, get_interval_ms a)],
           next_timer := Suc (next_timer a), after_id := Some (next_timer a)\<rparr>
      else perform_update e a)"
  by (simp add: auto_update_loop_def root_after_def Let_def perform_update_keeps
      get_interval_ms_perform_update)

lemma raise_for_status_None:
  "(raise_for_status r = None) = (status_code r < 400 \<or> 600 \<le> status_code r)"
  by (auto simp: raise_for_status_def)

lemma perform_update_resolved:
  assumes "id_entry a \<noteq> []" "email_entry a \<noteq> []" "apikey_entry a \<noteq> []"
    and "net e myip_request = Returns r1"
  shows "perform_update e a =
     foldl (log_message e)
       (a\<lparr>sent := sent a @ [myip_request,
            dnsup_request (email_entry a) (apikey_entry a) (id_entry a) (strip (resp_text r1))]\<rparr>)
       [''Fetching public IP address from api2.sitelutions.com/myip...'',
        ''Public IP found: '' @ strip (resp_text r1),
        ''Sending DNS update request to Sitelutions API...'',
        (case net e (dnsup_request (email_entry a) (apikey_entry a) (id_entry a)
                       (strip (resp_text r1))) of
           RequestException ex \<Rightarrow> ''ERROR: API request failed. Details: '' @ ex
         | Returns r2 \<Rightarrow>
             (case raise_for_status r2 of
                Some ex \<Rightarrow> ''ERROR: API request failed. Details: '' @ ex
              | None \<Rightarrow> ''SUCCESS: Server Response: '' @ strip (resp_text r2)))]"
proof (cases "net e (dnsup_request (email_entry a) (apikey_entry a) (id_entry a)
                       (strip (resp_text r1)))")
  case (RequestException ex)
  show ?thesis
    by (simp add: perform_update_updater_raises [OF assms RequestException] RequestException)
next
  case r2: (Returns r2)
  show ?thesis
  proof (cases "raise_for_status r2")
    case None
    show ?thesis by (simp add: perform_update_success [OF assms r2 None] r2 None)
  next
    case (Some ex)
    show ?thesis by (simp add: perform_update_http_error [OF assms r2 Some] r2 Some)
  qed
qed

text \<open>The concrete objects and worlds, evaluated.\<close>

lemma example_app_fields:
  "id_entry example_app = ''42''" "email_entry example_app = ''a@b.com''"
  "apikey_entry example_app = ''k1''" "sent example_app = []" "log_area example_app = []"
  "timers example_app = []" "next_timer example_app = 0" "is_running example_app = False"
  "interval_var example_app = []" "after_id example_app = None"
  by (simp_all add: example_app_def new_app_def)

lemma strip_address: "strip ''203.0.113.5'' = ''203.0.113.5''"
  by (simp add: strip_def isspace_def)

section \<open>The update operation\<close>

text \<open>
  C6. Whenever one of the three credential fields (record id, e-mail account, API key)
  is empty, \<^verbatim>\<open>perform_update\<close> takes its first return: it logs the missing-credentials
  error and nothing else happens; in particular no request is sent, neither to the
  resolver nor to the update endpoint.
\<close>

theorem missing_credentials_no_network:
  assumes "id_entry a = [] \<or> email_entry a = [] \<or> apikey_entry a = []"
  shows "perform_update e a =
           log_message e a ''ERROR: Record ID, Email, and API Key fields are required.''
         \<and> sent (perform_update e a) = sent a
         \<and> update_requests (perform_update e a) = update_requests a"
  using assms
  by (simp add: perform_update_missing sent_log_message update_requests_def)

theorem missing_credentials_no_network_witness:
  "apikey_entry nosecret_app = []
   \<and> sent nosecret_app = []
   \<and> sent (perform_update echo_env nosecret_app) = []
   \<and> log_area (perform_update echo_env nosecret_app) =
       [''[2025-10-16 12:00:00] ERROR: Record ID, Email, and API Key fields are required.\<newline>'']"
  using missing_credentials_no_network [of nosecret_app echo_env]
  by (simp add: nosecret_app_def example_app_fields sent_log_message log_area_log_message
      echo_env_def example_clock_def)

text \<open>
  C7. With the three credential fields filled in, when the request to the resolver
  raises, \<^verbatim>\<open>perform_update\<close> logs that the public IP could not be got and returns:
  the one request of the run is the resolver's, and no request goes to the update
  endpoint.
\<close>

theorem resolver_failure_skips_updater:
  assumes "id_entry a \<noteq> []" "email_entry a \<noteq> []" "apikey_entry a \<noteq> []"
    and "net e myip_request = RequestException ex"
  shows "perform_update e a =
           foldl (log_message e) (a\<lparr>sent := sent a @ [myip_request]\<rparr>)
             [''Fetching public IP address from api2.sitelutions.com/myip...'',
              ''ERROR: Could not get public IP. Details: '' @ ex]
         \<and> sent (perform_update e a) = sent a @ [myip_request]
         \<and> update_requests (perform_update e a) = update_requests a"
proof -
  note run = perform_update_resolver_raises [OF assms]
  have "sent (perform_update e a) = sent a @ [myip_request]"
    by (simp add: run sent_log_message)
  moreover from this have "update_requests (perform_update e a) = update_requests a"
    by (simp add: update_requests_def myip_request_def)
  ultimately show ?thesis using run by simp
qed

theorem resolver_failure_skips_updater_witness:
  "id_entry example_app \<noteq> [] \<and> email_entry example_app \<noteq> [] \<and> apikey_entry example_app \<noteq> []
   \<and> net down_env myip_request = RequestException ''Connection refused''
   \<and> sent (perform_update down_env example_app) = [myip_request]
   \<and> update_requests (perform_update down_env example_app) = []
   \<and> log_area (perform_update down_env example_app) =
       [''[2025-10-16 12:00:00] Fetching public IP address from api2.sitelutions.com/myip...\<newline>'',
        ''[2025-10-16 12:00:00] ERROR: Could not get public IP. Details: Connection refused\<newline>'']"
  using resolver_failure_skips_updater [of example_app down_env "''Connection refused''"]
  by (simp add: example_app_fields down_env_def example_clock_def sent_log_message
      log_message_sent log_area_log_message update_requests_def myip_request_def)

lemma echo_env_replies:
  "net echo_env myip_request = reply_with 200 ''OK'' myip_request ''203.0.113.5''"
  "net echo_env (dnsup_request u p i ip) =
     reply_with 200 ''OK'' (dnsup_request u p i ip) (''good '' @ ip)"
  by (simp_all add: echo_env_def echo_net_def myip_request_def dnsup_request_def
      settings_get_def)

lemma echo_run:
  "perform_update echo_env example_app =
     foldl (log_message echo_env)
       (example_app\<lparr>sent := [myip_request,
          dnsup_request ''a@b.com'' ''k1'' ''42'' ''203.0.113.5'']\<rparr>)
       [''Fetching public IP address from api2.sitelutions.com/myip...'',
        ''Public IP found: 203.0.113.5'',
        ''Sending DNS update request to Sitelutions API...'',
        ''SUCCESS: Server Response: good 203.0.113.5'']"
  using perform_update_success [of example_app echo_env
      "\<lparr>status_code = 200, reason = ''OK'', resp_url = url myip_request,
        resp_text = ''203.0.113.5''\<rparr>"
      "\<lparr>status_code = 200, reason = ''OK'',
        resp_url = url (dnsup_request ''a@b.com'' ''k1'' ''42'' ''203.0.113.5''),
        resp_text = ''good 203.0.113.5''\<rparr>"]
  by (simp add: example_app_fields echo_env_replies reply_with_def strip_address
      raise_for_status_def strip_def isspace_def)

text \<open>
  C2, as the code has it. With the credentials 42, a@b.com and k1, a resolver that
  answers 203.0.113.5 and an update endpoint that answers 200 with the text
  good 203.0.113.5, \<^verbatim>\<open>perform_update\<close> sends the two requests and logs four lines:
  the attempt and the outcome of the resolve step (the address found), then the attempt
  and the outcome of the update step (SUCCESS with the server's text).
\<close>

theorem concrete_scenario_four_lines:
  assumes "id_entry a = ''42''" "email_entry a = ''a@b.com''" "apikey_entry a = ''k1''"
    and "net e myip_request = Returns r1" and "resp_text r1 = ''203.0.113.5''"
    and "net e (dnsup_request ''a@b.com'' ''k1'' ''42'' ''203.0.113.5'') = Returns r2"
    and "status_code r2 = 200" and "resp_text r2 = ''good 203.0.113.5''"
  shows "perform_update e a =
           foldl (log_message e)
             (a\<lparr>sent := sent a @ [myip_request,
                  dnsup_request ''a@b.com'' ''k1'' ''42'' ''203.0.113.5'']\<rparr>)
             [''Fetching public IP address from api2.sitelutions.com/myip...'',
              ''Public IP found: 203.0.113.5'',
              ''Sending DNS update request to Sitelutions API...'',
              ''SUCCESS: Server Response: good 203.0.113.5'']
         \<and> length (log_area (perform_update e a)) = length (log_area a) + 4"
proof -
  have ok: "raise_for_status r2 = None"
    by (simp add: raise_for_status_None assms)
  have ip: "strip (resp_text r1) = ''203.0.113.5''"
    by (simp add: assms strip_address)
  have msg: "strip (resp_text r2) = ''good 203.0.113.5''"
    by (simp add: assms strip_def isspace_def)
  have run: "perform_update e a =
           foldl (log_message e)
             (a\<lparr>sent := sent a @ [myip_request,
                  dnsup_request ''a@b.com'' ''k1'' ''42'' ''203.0.113.5'']\<rparr>)
             [''Fetching public IP address from api2.sitelutions.com/myip...'',
              ''Public IP found: 203.0.113.5'',
              ''Sending DNS update request to Sitelutions API...'',
              ''SUCCESS: Server Response: good 203.0.113.5'']"
    using perform_update_success [of a e r1 r2] assms(1-4,6) ok ip msg by simp
  have "length (log_area (perform_update e a)) = length (log_area a) + 4"
    unfolding run by (simp add: log_simps)
  with run show ?thesis by blast
qed

theorem concrete_scenario_four_lines_witness:
  "id_entry example_app = ''42'' \<and> email_entry example_app = ''a@b.com''
   \<and> apikey_entry example_app = ''k1''
   \<and> sent (perform_update echo_env example_app) =
       [myip_request, dnsup_request ''a@b.com'' ''k1'' ''42'' ''203.0.113.5'']
   \<and> log_area (perform_update echo_env example_app) =
       [''[2025-10-16 12:00:00] Fetching public IP address from api2.sitelutions.com/myip...\<newline>'',
        ''[2025-10-16 12:00:00] Public IP found: 203.0.113.5\<newline>'',
        ''[2025-10-16 12:00:00] Sending DNS update request to Sitelutions API...\<newline>'',
        ''[2025-10-16 12:00:00] SUCCESS: Server Response: good 203.0.113.5\<newline>'']
   \<and> length (log_area (perform_update echo_env example_app)) = 4"
proof -
  have clk: "clock echo_env = example_clock"
    by (simp add: echo_env_def)
  have run: "perform_update echo_env example_app =
          foldl (log_message echo_env)
            (example_app\<lparr>sent := sent example_app @ [myip_request,
               dnsup_request ''a@b.com'' ''k1'' ''42'' ''203.0.113.5'']\<rparr>)
            [''Fetching public IP address from api2.sitelutions.com/myip...'',
             ''Public IP found: 203.0.113.5'',
             ''Sending DNS update request to Sitelutions API...'',
             ''SUCCESS: Server Response: good 203.0.113.5'']
        \<and> length (log_area (perform_update echo_env example_app)) =
            length (log_area example_app) + 4"
    by (rule concrete_scenario_four_lines [of example_app echo_env
          "\<lparr>status_code = 200, reason = ''OK'', resp_url = url myip_request,
            resp_text = ''203.0.113.5''\<rparr>"
          "\<lparr>status_code = 200, reason = ''OK'',
            resp_url = url (dnsup_request ''a@b.com'' ''k1'' ''42'' ''203.0.113.5''),
            resp_text = ''good 203.0.113.5''\<rparr>"])
      (simp_all add: example_app_fields echo_env_replies reply_with_def)
  then show ?thesis
    by (simp add: example_app_fields log_simps clk example_clock_def)
qed

text \<open>The claim's count of two log lines fails on that very run: the log gains four.\<close>

theorem concrete_scenario_two_lines_counterexample:
  "log_area example_app = []
   \<and> length (log_area (perform_update echo_env example_app)) = 4
   \<and> length (log_area (perform_update echo_env example_app)) \<noteq> length (log_area example_app) + 2"
  by (simp add: echo_run log_simps example_app_fields)

lemma update_requests_two:
  "sent b = sent a @ [myip_request, dnsup_request u p i ip] \<Longrightarrow>
   update_requests b = update_requests a @ [dnsup_request u p i ip]"
  by (simp add: update_requests_def myip_request_def dnsup_request_def)

text \<open>
  C3, the run that breaks it. The resolve step never looks at the status of the
  response: whatever the status code, once \<^verbatim>\<open>requests.get\<close> returns, the stripped body
  is logged as the public IP and sent on to the update endpoint as the \<open>ip\<close> parameter.
  (The update step calls \<^verbatim>\<open>raise_for_status\<close>; the resolve step does not.)
\<close>

theorem resolver_ignores_status:
  assumes "id_entry a \<noteq> []" "email_entry a \<noteq> []" "apikey_entry a \<noteq> []"
    and "net e myip_request = Returns (r\<lparr>status_code := code\<rparr>)"
  shows "sent (perform_update e a) =
           sent a @ [myip_request,
             dnsup_request (email_entry a) (apikey_entry a) (id_entry a) (strip (resp_text r))]
         \<and> take 2 (drop (length (log_area a)) (log_area (perform_update e a))) =
             [''['' @ clock e (length (log_area a))
                @ ''] Fetching public IP address from api2.sitelutions.com/myip...'' @ [CHR 0x0A],
              ''['' @ clock e (length (log_area a) + 1)
                @ ''] Public IP found: '' @ strip (resp_text r) @ [CHR 0x0A]]"
  using perform_update_resolved [OF assms] by (simp add: log_simps)

theorem resolver_ignores_status_witness:
  "net notfound_env myip_request =
     reply_with 404 ''Not Found'' myip_request (''<h1>Not Found</h1>'' @ [CHR 0x0A])
   \<and> sent (perform_update notfound_env example_app) =
       [myip_request, dnsup_request ''a@b.com'' ''k1'' ''42'' ''<h1>Not Found</h1>'']
   \<and> take 2 (log_area (perform_update notfound_env example_app)) =
       [''[2025-10-16 12:00:00] Fetching public IP address from api2.sitelutions.com/myip...\<newline>'',
        ''[2025-10-16 12:00:00] Public IP found: <h1>Not Found</h1>\<newline>'']"
proof -
  have clk: "clock notfound_env = example_clock"
    by (simp add: notfound_env_def)
  have rep: "net notfound_env myip_request =
     reply_with 404 ''Not Found'' myip_request (''<h1>Not Found</h1>'' @ [CHR 0x0A])"
    by (simp add: notfound_env_def notfound_net_def myip_request_def)
  have body: "strip ''<h1>Not Found</h1>\<newline>'' = ''<h1>Not Found</h1>''"
    by (simp add: strip_def isspace_def)
  have "net notfound_env myip_request =
     Returns (\<lparr>status_code = 0, reason = ''Not Found'', resp_url = url myip_request,
        resp_text = ''<h1>Not Found</h1>'' @ [CHR 0x0A]\<rparr>\<lparr>status_code := 404\<rparr>)"
    by (simp add: rep reply_with_def)
  from resolver_ignores_status [OF _ _ _ this, of example_app]
  show ?thesis
    by (simp add: example_app_fields rep body clk example_clock_def)
qed

text \<open>
  C5, as the code has it. With the credentials filled in and a resolver that answered,
  when the update step fails (the request raises, or \<^verbatim>\<open>raise_for_status\<close> raises on the
  response), the run has sent the update request with exactly the stripped body of the
  resolver's response as its \<open>ip\<close>, and has logged four lines: the second names that
  address (Public IP found), the last is the failure line, made of the exception's text
  alone.
\<close>

theorem updater_failure_report:
  assumes "id_entry a \<noteq> []" "email_entry a \<noteq> []" "apikey_entry a \<noteq> []"
    and "net e myip_request = Returns r1"
    and "net e (dnsup_request (email_entry a) (apikey_entry a) (id_entry a)
                  (strip (resp_text r1))) = RequestException ex
         \<or> (\<exists>r2. net e (dnsup_request (email_entry a) (apikey_entry a) (id_entry a)
                           (strip (resp_text r1))) = Returns r2
                  \<and> raise_for_status r2 = Some ex)"
  shows "perform_update e a =
           foldl (log_message e)
             (a\<lparr>sent := sent a @ [myip_request,
                  dnsup_request (email_entry a) (apikey_entry a) (id_entry a)
                    (strip (resp_text r1))]\<rparr>)
             [''Fetching public IP address from api2.sitelutions.com/myip...'',
              ''Public IP found: '' @ strip (resp_text r1),
              ''Sending DNS update request to Sitelutions API...'',
              ''ERROR: API request failed. Details: '' @ ex]
         \<and> last (log_area (perform_update e a)) =
             ''['' @ clock e (length (log_area a) + 3)
               @ ''] ERROR: API request failed. Details: '' @ ex @ [CHR 0x0A]"
proof -
  have run: "perform_update e a =
           foldl (log_message e)
             (a\<lparr>sent := sent a @ [myip_request,
                  dnsup_request (email_entry a) (apikey_entry a) (id_entry a)
                    (strip (resp_text r1))]\<rparr>)
             [''Fetching public IP address from api2.sitelutions.com/myip...'',
              ''Public IP found: '' @ strip (resp_text r1),
              ''Sending DNS update request to Sitelutions API...'',
              ''ERROR: API request failed. Details: '' @ ex]"
    using assms(5)
  proof
    assume "net e (dnsup_request (email_entry a) (apikey_entry a) (id_entry a)
                  (strip (resp_text r1))) = RequestException ex"
    then show ?thesis
      by (rule perform_update_updater_raises [OF assms(1-4)])
  next
    assume "\<exists>r2. net e (dnsup_request (email_entry a) (apikey_entry a) (id_entry a)
                           (strip (resp_text r1))) = Returns r2
                  \<and> raise_for_status r2 = Some ex"
    then obtain r2 where
      "net e (dnsup_request (email_entry a) (apikey_entry a) (id_entry a)
                (strip (resp_text r1))) = Returns r2"
      and "raise_for_status r2 = Some ex"
      by blast
    then show ?thesis
      by (rule perform_update_http_error [OF assms(1-4)])
  qed
  have "last (log_area (perform_update e a)) =
             ''['' @ clock e (length (log_area a) + 3)
               @ ''] ERROR: API request failed. Details: '' @ ex @ [CHR 0x0A]"
    unfolding run by (simp add: log_simps numeral_3_eq_3)
  with run show ?thesis by blast
qed

theorem updater_failure_report_witness:
  "net forbidden_env myip_request =
     reply_with 200 ''OK'' myip_request (''203.0.113.5'' @ [CHR 0x0A])
   \<and> net forbidden_env (dnsup_request ''a@b.com'' ''k1'' ''42'' ''203.0.113.5'') =
       reply_with 403 ''Forbidden'' (dnsup_request ''a@b.com'' ''k1'' ''42'' ''203.0.113.5'')
         ''denied''
   \<and> sent (perform_update forbidden_env example_app) =
       [myip_request, dnsup_request ''a@b.com'' ''k1'' ''42'' ''203.0.113.5'']
   \<and> log_area (perform_update forbidden_env example_app) =
       [''[2025-10-16 12:00:00] Fetching public IP address from api2.sitelutions.com/myip...\<newline>'',
        ''[2025-10-16 12:00:00] Public IP found: 203.0.113.5\<newline>'',
        ''[2025-10-16 12:00:00] Sending DNS update request to Sitelutions API...\<newline>'',
        ''[2025-10-16 12:00:00] ERROR: API request failed. Details: 403 Client Error: Forbidden for url: https://api2.sitelutions.com/dnsup\<newline>'']"
proof -
  have clk: "clock forbidden_env = example_clock"
    by (simp add: forbidden_env_def)
  have r1: "net forbidden_env myip_request =
     reply_with 200 ''OK'' myip_request (''203.0.113.5'' @ [CHR 0x0A])"
    by (simp add: forbidden_env_def forbidden_net_def myip_request_def)
  have r2: "net forbidden_env (dnsup_request ''a@b.com'' ''k1'' ''42'' ''203.0.113.5'') =
       reply_with 403 ''Forbidden'' (dnsup_request ''a@b.com'' ''k1'' ''42'' ''203.0.113.5'')
         ''denied''"
    by (simp add: forbidden_env_def forbidden_net_def dnsup_request_def)
  have body: "strip ''203.0.113.5\<newline>'' = ''203.0.113.5''"
    by (simp add: strip_def isspace_def)
  have err: "raise_for_status \<lparr>status_code = 403, reason = ''Forbidden'',
        resp_url = url (dnsup_request ''a@b.com'' ''k1'' ''42'' ''203.0.113.5''),
        resp_text = ''denied''\<rparr> =
      Some ''403 Client Error: Forbidden for url: https://api2.sitelutions.com/dnsup''"
    by (simp add: raise_for_status_def str_nat.simps dnsup_request_def)
  have "perform_update forbidden_env example_app =
           foldl (log_message forbidden_env)
             (example_app\<lparr>sent := sent example_app @ [myip_request,
                  dnsup_request (email_entry example_app) (apikey_entry example_app)
                    (id_entry example_app)
                    (strip (resp_text \<lparr>status_code = 200, reason = ''OK'',
                       resp_url = url myip_request,
                       resp_text = ''203.0.113.5'' @ [CHR 0x0A]\<rparr>))]\<rparr>)
             [''Fetching public IP address from api2.sitelutions.com/myip...'',
              ''Public IP found: '' @ strip (resp_text \<lparr>status_code = 200, reason = ''OK'',
                       resp_url = url myip_request,
                       resp_text = ''203.0.113.5'' @ [CHR 0x0A]\<rparr>),
              ''Sending DNS update request to Sitelutions API...'',
              ''ERROR: API request failed. Details: ''
                @ ''403 Client Error: Forbidden for url: https://api2.sitelutions.com/dnsup'']
         \<and> last (log_area (perform_update forbidden_env example_app)) =
             ''['' @ clock forbidden_env (length (log_area example_app) + 3)
               @ ''] ERROR: API request failed. Details: ''
               @ ''403 Client Error: Forbidden for url: https://api2.sitelutions.com/dnsup''
               @ [CHR 0x0A]"
    by (rule updater_failure_report)
      (simp_all add: example_app_fields r1 r2 reply_with_def body err)
  then show ?thesis
    by (simp add: example_app_fields r1 r2 body log_simps clk example_clock_def)
qed

text \<open>
  The claim's failure line naming the resolved IP fails when the exception's text does
  not happen to contain it: a read timeout of the update request.
\<close>

theorem updater_failure_line_counterexample:
  "net timeout_env myip_request = reply_with 200 ''OK'' myip_request ''203.0.113.5''
   \<and> net timeout_env (dnsup_request ''a@b.com'' ''k1'' ''42'' ''203.0.113.5'') =
       RequestException ''Read timed out. (read timeout=10)''
   \<and> last (log_area (perform_update timeout_env example_app)) =
       ''[2025-10-16 12:00:00] ERROR: API request failed. Details: Read timed out. (read timeout=10)\<newline>''
   \<and> \<not> sublist ''203.0.113.5'' (last (log_area (perform_update timeout_env example_app)))"
proof -
  have clk: "clock timeout_env = example_clock"
    by (simp add: timeout_env_def)
  have r1: "net timeout_env myip_request = reply_with 200 ''OK'' myip_request ''203.0.113.5''"
    by (simp add: timeout_env_def timeout_net_def myip_request_def)
  have r2: "net timeout_env (dnsup_request ''a@b.com'' ''k1'' ''42'' ''203.0.113.5'') =
       RequestException ''Read timed out. (read timeout=10)''"
    by (simp add: timeout_env_def timeout_net_def dnsup_request_def)
  have "perform_update timeout_env example_app =
     foldl (log_message timeout_env)
       (example_app\<lparr>sent := sent example_app @ [myip_request,
            dnsup_request (email_entry example_app) (apikey_entry example_app)
              (id_entry example_app)
              (strip (resp_text \<lparr>status_code = 200, reason = ''OK'',
                 resp_url = url myip_request, resp_text = ''203.0.113.5''\<rparr>))]\<rparr>)
       [''Fetching public IP address from api2.sitelutions.com/myip...'',
        ''Public IP found: '' @ strip (resp_text \<lparr>status_code = 200, reason = ''OK'',
                 resp_url = url myip_request, resp_text = ''203.0.113.5''\<rparr>),
        ''Sending DNS update request to Sitelutions API...'',
        ''ERROR: API request failed. Details: '' @ ''Read timed out. (read timeout=10)'']"
    by (rule perform_update_updater_raises)
      (simp_all add: example_app_fields r1 r2 reply_with_def strip_address)
  then have l: "last (log_area (perform_update timeout_env example_app)) =
       ''[2025-10-16 12:00:00] ERROR: API request failed. Details: Read timed out. (read timeout=10)\<newline>''"
    by (simp add: example_app_fields log_simps clk example_clock_def)
  have "\<not> sublist ''203.0.113.5''
       ''[2025-10-16 12:00:00] ERROR: API request failed. Details: Read timed out. (read timeout=10)\<newline>''"
    by (simp add: sublist_Cons_right prefix_Cons)
  with l r1 r2 show ?thesis by simp
qed

text \<open>
  C8, as the code has it. Whenever the update step is reached (credentials filled in,
  the resolver's request returned), exactly one request goes to the update endpoint:
  a GET of the fixed URL with the parameters user, pass, id, ip (the resolved address)
  and ttl = 60, under a timeout of 10 seconds. The step fails, with an ERROR line, when
  the request raises or the status is from 400 to 599 (where \<^verbatim>\<open>raise_for_status\<close>
  raises); for every other status, 2xx or not, the stripped body of the response is
  logged verbatim as the server's response, after SUCCESS.
\<close>

theorem updater_request_and_outcome:
  assumes "id_entry a \<noteq> []" "email_entry a \<noteq> []" "apikey_entry a \<noteq> []"
    and "net e myip_request = Returns r1"
    and "rq = dnsup_request (email_entry a) (apikey_entry a) (id_entry a) (strip (resp_text r1))"
  shows "sent (perform_update e a) = sent a @ [myip_request, rq]
         \<and> update_requests (perform_update e a) = update_requests a @ [rq]
         \<and> url rq = ''https://api2.sitelutions.com/dnsup''
         \<and> params rq = [(''user'', email_entry a), (''pass'', apikey_entry a),
                          (''id'', id_entry a), (''ip'', strip (resp_text r1)), (''ttl'', ''60'')]
         \<and> timeout rq = 10
         \<and> perform_update e a =
             foldl (log_message e) (a\<lparr>sent := sent a @ [myip_request, rq]\<rparr>)
               [''Fetching public IP address from api2.sitelutions.com/myip...'',
                ''Public IP found: '' @ strip (resp_text r1),
                ''Sending DNS update request to Sitelutions API...'',
                (case net e rq of
                   RequestException ex \<Rightarrow> ''ERROR: API request failed. Details: '' @ ex
                 | Returns r2 \<Rightarrow>
                     (case raise_for_status r2 of
                        Some ex \<Rightarrow> ''ERROR: API request failed. Details: '' @ ex
                      | None \<Rightarrow> ''SUCCESS: Server Response: '' @ strip (resp_text r2)))]
         \<and> (\<forall>r2. (raise_for_status r2 = None) = (status_code r2 < 400 \<or> 600 \<le> status_code r2))"
proof -
  have run: "perform_update e a =
             foldl (log_message e) (a\<lparr>sent := sent a @ [myip_request, rq]\<rparr>)
               [''Fetching public IP address from api2.sitelutions.com/myip...'',
                ''Public IP found: '' @ strip (resp_text r1),
                ''Sending DNS update request to Sitelutions API...'',
                (case net e rq of
                   RequestException ex \<Rightarrow> ''ERROR: API request failed. Details: '' @ ex
                 | Returns r2 \<Rightarrow>
                     (case raise_for_status r2 of
                        Some ex \<Rightarrow> ''ERROR: API request failed. Details: '' @ ex
                      | None \<Rightarrow> ''SUCCESS: Server Response: '' @ strip (resp_text r2)))]"
    unfolding assms(5) by (rule perform_update_resolved [OF assms(1-4)])
  have s: "sent (perform_update e a) = sent a @ [myip_request, rq]"
    unfolding run by (simp add: log_simps)
  have u: "update_requests (perform_update e a) = update_requests a @ [rq]"
    using s unfolding assms(5) by (rule update_requests_two)
  have f: "url rq = ''https://api2.sitelutions.com/dnsup''"
    "params rq = [(''user'', email_entry a), (''pass'', apikey_entry a),
                  (''id'', id_entry a), (''ip'', strip (resp_text r1)), (''ttl'', ''60'')]"
    "timeout rq = 10"
    by (simp_all add: assms(5) dnsup_request_def)
  from run s u f show ?thesis
    by (simp only: raise_for_status_None simp_thms)
qed

theorem updater_request_and_outcome_witness:
  "net echo_env myip_request = reply_with 200 ''OK'' myip_request ''203.0.113.5''
   \<and> update_requests (perform_update echo_env example_app) =
       [\<lparr>url = ''https://api2.sitelutions.com/dnsup'',
         params = [(''user'', ''a@b.com''), (''pass'', ''k1''), (''id'', ''42''),
                   (''ip'', ''203.0.113.5''), (''ttl'', ''60'')],
         timeout = 10\<rparr>]
   \<and> last (log_area (perform_update echo_env example_app)) =
       ''[2025-10-16 12:00:00] SUCCESS: Server Response: good 203.0.113.5\<newline>''"
proof -
  have clk: "clock echo_env = example_clock"
    by (simp add: echo_env_def)
  have ok: "raise_for_status \<lparr>status_code = 200, reason = ''OK'',
        resp_url = url (dnsup_request ''a@b.com'' ''k1'' ''42'' ''203.0.113.5''),
        resp_text = ''good 203.0.113.5''\<rparr> = None"
    by (simp add: raise_for_status_None)
  have msg: "strip ''good 203.0.113.5'' = ''good 203.0.113.5''"
    by (simp add: strip_def isspace_def)
  have h4: "net echo_env myip_request =
      Returns \<lparr>status_code = 200, reason = ''OK'', resp_url = url myip_request,
        resp_text = ''203.0.113.5''\<rparr>"
    by (simp add: echo_env_replies reply_with_def)
  have h5: "dnsup_request ''a@b.com'' ''k1'' ''42'' ''203.0.113.5'' =
      dnsup_request (email_entry example_app) (apikey_entry example_app) (id_entry example_app)
        (strip (resp_text \<lparr>status_code = 200, reason = ''OK'', resp_url = url myip_request,
           resp_text = ''203.0.113.5''\<rparr>))"
    by (simp add: example_app_fields strip_address)
  have v: "id_entry example_app \<noteq> []" "email_entry example_app \<noteq> []"
    "apikey_entry example_app \<noteq> []"
    by (simp_all add: example_app_fields)
  note t = updater_request_and_outcome [OF v h4 h5]
  note u = t [THEN conjunct2, THEN conjunct1]
  note run = t [THEN conjunct2, THEN conjunct2, THEN conjunct2, THEN conjunct2,
      THEN conjunct2, THEN conjunct1]
  have "update_requests (perform_update echo_env example_app) =
       [\<lparr>url = ''https://api2.sitelutions.com/dnsup'',
         params = [(''user'', ''a@b.com''), (''pass'', ''k1''), (''id'', ''42''),
                   (''ip'', ''203.0.113.5''), (''ttl'', ''60'')],
         timeout = 10\<rparr>]"
    unfolding u by (simp add: update_requests_def example_app_fields dnsup_request_def)
  moreover have "last (log_area (perform_update echo_env example_app)) =
       ''[2025-10-16 12:00:00] SUCCESS: Server Response: good 203.0.113.5\<newline>''"
    unfolding run
    by (simp add: echo_env_replies reply_with_def ok msg log_simps clk example_clock_def)
  ultimately show ?thesis
    by (simp add: echo_env_replies)
qed

text \<open>
  The claim's failure on every non-2xx status fails at 304: \<^verbatim>\<open>raise_for_status\<close> does
  not raise there, and the run ends with the SUCCESS line.
\<close>

theorem updater_not_modified_counterexample:
  "net notmodified_env (dnsup_request ''a@b.com'' ''k1'' ''42'' ''203.0.113.5'') =
     reply_with 304 ''Not Modified'' (dnsup_request ''a@b.com'' ''k1'' ''42'' ''203.0.113.5'') []
   \<and> update_requests (perform_update notmodified_env example_app) =
       [dnsup_request ''a@b.com'' ''k1'' ''42'' ''203.0.113.5'']
   \<and> last (log_area (perform_update notmodified_env example_app)) =
       ''[2025-10-16 12:00:00] SUCCESS: Server Response: \<newline>''"
proof -
  have clk: "clock notmodified_env = example_clock"
    by (simp add: notmodified_env_def)
  have r1: "net notmodified_env myip_request =
      reply_with 200 ''OK'' myip_request ''203.0.113.5''"
    by (simp add: notmodified_env_def notmodified_net_def myip_request_def)
  have r2: "net notmodified_env (dnsup_request ''a@b.com'' ''k1'' ''42'' ''203.0.113.5'') =
     reply_with 304 ''Not Modified'' (dnsup_request ''a@b.com'' ''k1'' ''42'' ''203.0.113.5'') []"
    by (simp add: notmodified_env_def notmodified_net_def dnsup_request_def)
  have ok: "raise_for_status \<lparr>status_code = 304, reason = ''Not Modified'',
        resp_url = url (dnsup_request ''a@b.com'' ''k1'' ''42'' ''203.0.113.5''),
        resp_text = []\<rparr> = None"
    by (simp add: raise_for_status_None)
  have empty: "strip [] = []"
    by (simp add: strip_def)
  have "perform_update notmodified_env example_app =
     foldl (log_message notmodified_env)
       (example_app\<lparr>sent := sent example_app @ [myip_request,
            dnsup_request (email_entry example_app) (apikey_entry example_app)
              (id_entry example_app)
              (strip (resp_text \<lparr>status_code = 200, reason = ''OK'',
                 resp_url = url myip_request, resp_text = ''203.0.113.5''\<rparr>))]\<rparr>)
       [''Fetching public IP address from api2.sitelutions.com/myip...'',
        ''Public IP found: '' @ strip (resp_text \<lparr>status_code = 200, reason = ''OK'',
                 resp_url = url myip_request, resp_text = ''203.0.113.5''\<rparr>),
        ''Sending DNS update request to Sitelutions API...'',
        ''SUCCESS: Server Response: '' @ strip (resp_text \<lparr>status_code = 304,
           reason = ''Not Modified'',
           resp_url = url (dnsup_request ''a@b.com'' ''k1'' ''42'' ''203.0.113.5''),
           resp_text = []\<rparr>)]"
    by (rule perform_update_success)
      (simp_all add: example_app_fields r1 r2 reply_with_def strip_address ok)
  then have run: "perform_update notmodified_env example_app =
     foldl (log_message notmodified_env)
       (example_app\<lparr>sent := [myip_request,
            dnsup_request ''a@b.com'' ''k1'' ''42'' ''203.0.113.5'']\<rparr>)
       [''Fetching public IP address from api2.sitelutions.com/myip...'',
        ''Public IP found: 203.0.113.5'',
        ''Sending DNS update request to Sitelutions API...'',
        ''SUCCESS: Server Response: '']"
    by (simp add: example_app_fields strip_address empty)
  have u: "update_requests (perform_update notmodified_env example_app) =
       [dnsup_request ''a@b.com'' ''k1'' ''42'' ''203.0.113.5'']"
    unfolding run
    by (simp add: update_requests_def log_simps myip_request_def dnsup_request_def)
  have l: "last (log_area (perform_update notmodified_env example_app)) =
       ''[2025-10-16 12:00:00] SUCCESS: Server Response: \<newline>''"
    unfolding run by (simp add: log_simps clk example_clock_def example_app_fields)
  from r2 u l show ?thesis by (intro conjI)
qed

section \<open>The scheduler\<close>

lemma start_auto_update_rejected:
  "interval_var a = [] \<Longrightarrow>
   start_auto_update e a = log_message e a ''ERROR: Please select an update interval.''"
  by (simp add: start_auto_update_def)

lemma start_auto_update_accepted:
  "interval_var a \<noteq> [] \<Longrightarrow> start_auto_update e a = auto_update_loop e (started e a)"
  by (simp add: start_auto_update_def started_def Let_def save_settings_def
      set_controls_state_def log_message_def)

lemma started_fields:
  "is_running (started e a)"
  "interval_var (started e a) = interval_var a"
  "timers (started e a) = timers a"
  "next_timer (started e a) = next_timer a"
  "after_id (started e a) = after_id a"
  "sent (started e a) = sent a"
  "id_entry (started e a) = id_entry a"
  "email_entry (started e a) = email_entry a"
  "apikey_entry (started e a) = apikey_entry a"
  "start_button (started e a) = Disabled"
  "stop_button (started e a) = Normal"
  "manual_button (started e a) = Disabled"
  by (simp_all add: started_def save_settings_def set_controls_state_def log_message_def
      Let_def)

lemma get_interval_ms_started: "get_interval_ms (started e a) = get_interval_ms a"
  by (simp add: get_interval_ms_def started_fields)

lemma timers_auto_update_loop:
  "timers (auto_update_loop e a) =
     (if 0 < get_interval_ms a \<and> is_running a
      then timers a @ [(next_timer a, get_interval_ms a)] else timers a)"
  by (simp add: auto_update_loop_eq perform_update_keeps)

lemma is_running_auto_update_loop: "is_running (auto_update_loop e a) = is_running a"
  by (simp add: auto_update_loop_eq perform_update_keeps)

lemma timers_positive_auto_update_loop:
  "timers_positive a \<Longrightarrow> timers_positive (auto_update_loop e a)"
  by (simp add: timers_positive_def timers_auto_update_loop)

lemma timers_positive_filter:
  "timers_positive a \<Longrightarrow> timers_positive (a\<lparr>timers := filter P (timers a)\<rparr>)"
  by (simp add: timers_positive_def list_all_iff)

lemma down_env_fails: "net down_env rq = RequestException ''Connection refused''"
  by (simp add: down_env_def)

lemma auto_update_loop_keeps:
  "interval_var (auto_update_loop e a) = interval_var a"
  "id_entry (auto_update_loop e a) = id_entry a"
  "email_entry (auto_update_loop e a) = email_entry a"
  "apikey_entry (auto_update_loop e a) = apikey_entry a"
  "start_button (auto_update_loop e a) = start_button a"
  "stop_button (auto_update_loop e a) = stop_button a"
  "manual_button (auto_update_loop e a) = manual_button a"
  "sent (auto_update_loop e a) = sent (perform_update e a)"
  "log_area (auto_update_loop e a) = log_area (perform_update e a)"
  "next_timer (auto_update_loop e a) =
     (if 0 < get_interval_ms a \<and> is_running a then Suc (next_timer a) else next_timer a)"
  by (simp_all add: auto_update_loop_eq perform_update_keeps)

lemma timers_positive_log_message:
  "timers_positive (log_message e a m) = timers_positive a"
  by (simp add: timers_positive_def log_message_def Let_def)

lemma timers_positive_started: "timers_positive (started e a) = timers_positive a"
  by (simp add: timers_positive_def started_fields)

lemma timers_positive_start:
  "timers_positive a \<Longrightarrow> timers_positive (start_auto_update e a)"
proof (cases "interval_var a = []")
  case True
  assume "timers_positive a"
  then show ?thesis
    by (simp add: start_auto_update_rejected [OF True] timers_positive_log_message)
next
  case False
  assume "timers_positive a"
  then have "timers_positive (started e a)"
    by (simp add: timers_positive_started)
  then have "timers_positive (auto_update_loop e (started e a))"
    by (rule timers_positive_auto_update_loop)
  then show ?thesis
    by (simp add: start_auto_update_accepted [OF False])
qed

lemma timers_stop_auto_update:
  "timers (stop_auto_update e a) =
     (case after_id a of Some tid \<Rightarrow> filter (\<lambda>t. fst t \<noteq> tid) (timers a) | None \<Rightarrow> timers a)"
  by (simp add: stop_auto_update_def Let_def root_after_cancel_def set_controls_state_def
      log_message_def split: option.split)

lemma timers_positive_stop:
  "timers_positive a \<Longrightarrow> timers_positive (stop_auto_update e a)"
  by (simp add: timers_positive_def timers_stop_auto_update list_all_iff split: option.split)

lemma timers_positive_fires:
  "timers_positive a \<Longrightarrow> timers_positive (timer_fires e tid a)"
proof -
  assume p: "timers_positive a"
  have "timers_positive (root_after_cancel a tid)"
    unfolding root_after_cancel_def using p by (rule timers_positive_filter)
  then have "timers_positive (auto_update_loop e (root_after_cancel a tid))"
    by (rule timers_positive_auto_update_loop)
  with p show ?thesis
    by (simp add: timer_fires_def)
qed

lemma timers_load_settings: "timers (load_settings e a) = timers a"
  by (simp add: load_settings_def log_message_def Let_def split: config_file.split)

lemma timers_positive_init: "timers_positive (init e d)"
  by (simp add: timers_positive_def init_def timers_load_settings new_app_def)

lemma five_minutes_app_fields:
  "interval_var five_minutes_app = ''5 minutes''" "timers five_minutes_app = []"
  "next_timer five_minutes_app = 0" "id_entry five_minutes_app = ''42''"
  "email_entry five_minutes_app = ''a@b.com''" "apikey_entry five_minutes_app = ''k1''"
  "is_running five_minutes_app = False" "sent five_minutes_app = []"
  by (simp_all add: five_minutes_app_def example_app_fields)

lemma four_hours_app_fields:
  "interval_var four_hours_app = ''4 hours''" "timers four_hours_app = []"
  "next_timer four_hours_app = 0" "id_entry four_hours_app = ''42''"
  "email_entry four_hours_app = ''a@b.com''" "apikey_entry four_hours_app = ''k1''"
  "is_running four_hours_app = False" "sent four_hours_app = []"
  by (simp_all add: four_hours_app_def example_app_fields)

text \<open>
  C10. \<^verbatim>\<open>get_interval_ms\<close> is 0 for every interval outside the enumerated ones, and
  \<^verbatim>\<open>auto_update_loop\<close> arms a timer only when the delay is above zero and the scheduler
  is running, with that delay. So no method ever leaves a timer with a delay of zero or
  less in the queue (there is none at start-up, and \<^verbatim>\<open>auto_update_loop\<close>, Start, Stop
  and a firing timer keep it so), and with an unrecognised interval a cycle is one
  update operation and nothing more: Start runs one update operation and arms nothing.
\<close>

theorem timer_delay_always_positive:
  "(interval_var a \<notin> set interval_values \<longrightarrow>
      get_interval_ms a = 0 \<and> auto_update_loop e a = perform_update e a)
   \<and> timers (auto_update_loop e a) =
       (if 0 < get_interval_ms a \<and> is_running a
        then timers a @ [(next_timer a, get_interval_ms a)] else timers a)
   \<and> timers_positive (init e d)
   \<and> (timers_positive a \<longrightarrow>
        timers_positive (auto_update_loop e a) \<and> timers_positive (start_auto_update e a)
        \<and> timers_positive (stop_auto_update e a) \<and> timers_positive (timer_fires e tid a))
   \<and> (interval_var a \<noteq> [] \<and> interval_var a \<notin> set interval_values \<longrightarrow>
        start_auto_update e a = perform_update e (started e a)
        \<and> timers (start_auto_update e a) = timers a)"
proof -
  have 1: "interval_var a \<notin> set interval_values \<longrightarrow>
      get_interval_ms a = 0 \<and> auto_update_loop e a = perform_update e a"
    by (simp add: get_interval_ms_unknown auto_update_loop_eq)
  have 2: "timers_positive a \<longrightarrow>
        timers_positive (auto_update_loop e a) \<and> timers_positive (start_auto_update e a)
        \<and> timers_positive (stop_auto_update e a) \<and> timers_positive (timer_fires e tid a)"
    by (simp add: timers_positive_auto_update_loop timers_positive_start timers_positive_stop
        timers_positive_fires)
  have 3: "interval_var a \<noteq> [] \<and> interval_var a \<notin> set interval_values \<longrightarrow>
        start_auto_update e a = perform_update e (started e a)
        \<and> timers (start_auto_update e a) = timers a"
  proof (intro impI, elim conjE)
    assume ne: "interval_var a \<noteq> []" and un: "interval_var a \<notin> set interval_values"
    have "get_interval_ms (started e a) = 0"
      using un by (simp add: get_interval_ms_started get_interval_ms_unknown)
    then have "auto_update_loop e (started e a) = perform_update e (started e a)"
      by (simp add: auto_update_loop_eq)
    then show "start_auto_update e a = perform_update e (started e a)
        \<and> timers (start_auto_update e a) = timers a"
      by (simp add: start_auto_update_accepted [OF ne] perform_update_keeps started_fields)
  qed
  from 1 timers_auto_update_loop [of e a] timers_positive_init [of e d] 2 3
  show ?thesis by (intro conjI)
qed

theorem timer_delay_always_positive_witness:
  "interval_var five_minutes_app \<noteq> []
   \<and> interval_var five_minutes_app \<notin> set interval_values
   \<and> timers_positive five_minutes_app
   \<and> get_interval_ms five_minutes_app = 0
   \<and> timers (start_auto_update echo_env five_minutes_app) = []
   \<and> timers_positive (start_auto_update echo_env five_minutes_app)
   \<and> start_auto_update echo_env five_minutes_app =
       perform_update echo_env (started echo_env five_minutes_app)"
proof -
  note t = timer_delay_always_positive [of five_minutes_app echo_env NoFile 0]
  have ne: "interval_var five_minutes_app \<noteq> []"
    by (simp add: five_minutes_app_fields)
  have un: "interval_var five_minutes_app \<notin> set interval_values"
    by (simp add: five_minutes_app_fields interval_values_def)
  have p: "timers_positive five_minutes_app"
    by (simp add: timers_positive_def five_minutes_app_fields)
  from t un have z: "get_interval_ms five_minutes_app = 0"
    by blast
  from t p have sp: "timers_positive (start_auto_update echo_env five_minutes_app)"
    by blast
  from t ne un have s: "start_auto_update echo_env five_minutes_app =
       perform_update echo_env (started echo_env five_minutes_app)"
    and "timers (start_auto_update echo_env five_minutes_app) = timers five_minutes_app"
    by blast+
  then have tm: "timers (start_auto_update echo_env five_minutes_app) = []"
    by (simp add: five_minutes_app_fields)
  from ne un p z tm sp s show ?thesis
    by (intro conjI)
qed

lemma echo_run_any:
  assumes "id_entry a = ''42''" "email_entry a = ''a@b.com''" "apikey_entry a = ''k1''"
  shows "perform_update echo_env a =
     foldl (log_message echo_env)
       (a\<lparr>sent := sent a @ [myip_request,
          dnsup_request ''a@b.com'' ''k1'' ''42'' ''203.0.113.5'']\<rparr>)
       [''Fetching public IP address from api2.sitelutions.com/myip...'',
        ''Public IP found: 203.0.113.5'',
        ''Sending DNS update request to Sitelutions API...'',
        ''SUCCESS: Server Response: good 203.0.113.5'']"
  using perform_update_success [of a echo_env
      "\<lparr>status_code = 200, reason = ''OK'', resp_url = url myip_request,
        resp_text = ''203.0.113.5''\<rparr>"
      "\<lparr>status_code = 200, reason = ''OK'',
        resp_url = url (dnsup_request ''a@b.com'' ''k1'' ''42'' ''203.0.113.5''),
        resp_text = ''good 203.0.113.5''\<rparr>"]
  by (simp add: assms echo_env_replies reply_with_def strip_address
      raise_for_status_def strip_def isspace_def)

lemma sent_echo_run:
  assumes "id_entry a = ''42''" "email_entry a = ''a@b.com''" "apikey_entry a = ''k1''"
  shows "sent (perform_update echo_env a) =
     sent a @ [myip_request, dnsup_request ''a@b.com'' ''k1'' ''42'' ''203.0.113.5'']"
  by (simp add: echo_run_any [OF assms] log_simps)

lemma interval_var_load_settings:
  "interval_var (load_settings e a) = interval_var a
   \<or> interval_var (load_settings e a) \<in> set interval_values"
  by (simp add: load_settings_def log_message_def Let_def split: config_file.split)

lemma started_is_running_irrelevant: "started e (a\<lparr>is_running := b\<rparr>) = started e a"
  by (simp add: started_def)

text \<open>
  C1, as the code has it. \<^verbatim>\<open>start_auto_update\<close> rejects the empty interval only: it logs
  an error and nothing else changes, so the running flag keeps its value, no request is
  sent and no timer is armed. A non-empty interval outside the enumerated ones is
  accepted: the scheduler is set running and one update operation is performed, but no
  timer is armed. The object never gets such an interval from its settings file: after
  start-up the interval is empty or one of the enumerated ones.
\<close>

theorem start_rejects_empty_interval_only:
  "(interval_var a = [] \<longrightarrow>
      start_auto_update e a = log_message e a ''ERROR: Please select an update interval.''
      \<and> is_running (start_auto_update e a) = is_running a
      \<and> sent (start_auto_update e a) = sent a
      \<and> timers (start_auto_update e a) = timers a)
   \<and> (interval_var a \<noteq> [] \<and> interval_var a \<notin> set interval_values \<longrightarrow>
        is_running (start_auto_update e a)
        \<and> start_auto_update e a = perform_update e (started e a)
        \<and> timers (start_auto_update e a) = timers a)
   \<and> (interval_var (init e d) = [] \<or> interval_var (init e d) \<in> set interval_values)"
proof -
  have 1: "interval_var a = [] \<longrightarrow>
      start_auto_update e a = log_message e a ''ERROR: Please select an update interval.''
      \<and> is_running (start_auto_update e a) = is_running a
      \<and> sent (start_auto_update e a) = sent a
      \<and> timers (start_auto_update e a) = timers a"
    by (simp add: start_auto_update_rejected log_message_def Let_def)
  have 2: "interval_var a \<noteq> [] \<and> interval_var a \<notin> set interval_values \<longrightarrow>
        is_running (start_auto_update e a)
        \<and> start_auto_update e a = perform_update e (started e a)
        \<and> timers (start_auto_update e a) = timers a"
  proof (intro impI, elim conjE)
    assume ne: "interval_var a \<noteq> []" and un: "interval_var a \<notin> set interval_values"
    have "get_interval_ms (started e a) = 0"
      using un by (simp add: get_interval_ms_started get_interval_ms_unknown)
    then have "auto_update_loop e (started e a) = perform_update e (started e a)"
      by (simp add: auto_update_loop_eq)
    then show "is_running (start_auto_update e a)
        \<and> start_auto_update e a = perform_update e (started e a)
        \<and> timers (start_auto_update e a) = timers a"
      by (simp add: start_auto_update_accepted [OF ne] perform_update_keeps started_fields)
  qed
  have 3: "interval_var (init e d) = [] \<or> interval_var (init e d) \<in> set interval_values"
    using interval_var_load_settings [of e "new_app d"]
    by (simp add: init_def new_app_def)
  from 1 2 3 show ?thesis by (intro conjI)
qed

theorem start_rejects_empty_interval_only_witness:
  "interval_var example_app = []
   \<and> is_running (start_auto_update echo_env example_app) = False
   \<and> sent (start_auto_update echo_env example_app) = []
   \<and> log_area (start_auto_update echo_env example_app) =
       [''[2025-10-16 12:00:00] ERROR: Please select an update interval.\<newline>'']
   \<and> interval_var five_minutes_app \<noteq> []
   \<and> interval_var five_minutes_app \<notin> set interval_values
   \<and> is_running (start_auto_update echo_env five_minutes_app)
   \<and> timers (start_auto_update echo_env five_minutes_app) = []"
proof -
  note t1 = start_rejects_empty_interval_only [of example_app echo_env NoFile]
  note t2 = start_rejects_empty_interval_only [of five_minutes_app echo_env NoFile]
  have em: "interval_var example_app = []"
    by (simp add: example_app_fields)
  have ne: "interval_var five_minutes_app \<noteq> []"
    by (simp add: five_minutes_app_fields)
  have un: "interval_var five_minutes_app \<notin> set interval_values"
    by (simp add: five_minutes_app_fields interval_values_def)
  from t1 em have
    a: "start_auto_update echo_env example_app =
          log_message echo_env example_app ''ERROR: Please select an update interval.''"
    and b: "is_running (start_auto_update echo_env example_app) = is_running example_app"
    and c: "sent (start_auto_update echo_env example_app) = sent example_app"
    by blast+
  have l: "log_area (start_auto_update echo_env example_app) =
       [''[2025-10-16 12:00:00] ERROR: Please select an update interval.\<newline>'']"
    unfolding a by (simp add: log_simps example_app_fields echo_env_def example_clock_def)
  from t2 ne un have r: "is_running (start_auto_update echo_env five_minutes_app)"
    and "timers (start_auto_update echo_env five_minutes_app) = timers five_minutes_app"
    by blast+
  then have tm: "timers (start_auto_update echo_env five_minutes_app) = []"
    by (simp add: five_minutes_app_fields)
  from b c have b': "is_running (start_auto_update echo_env example_app) = False"
    and c': "sent (start_auto_update echo_env example_app) = []"
    by (simp_all add: example_app_fields)
  from em b' c' l ne un r tm show ?thesis
    by (intro conjI)
qed

text \<open>
  The claimed rejection of every interval outside the enumerated set fails for a
  non-empty one: from Idle, Start with 5 minutes sets the scheduler running and performs
  an update operation (both requests are sent).
\<close>

theorem start_unknown_interval_counterexample:
  "interval_var five_minutes_app \<notin> set interval_values
   \<and> \<not> is_running five_minutes_app
   \<and> is_running (start_auto_update echo_env five_minutes_app)
   \<and> sent (start_auto_update echo_env five_minutes_app) =
       [myip_request, dnsup_request ''a@b.com'' ''k1'' ''42'' ''203.0.113.5'']"
proof -
  have ne: "interval_var five_minutes_app \<noteq> []"
    by (simp add: five_minutes_app_fields)
  have un: "interval_var five_minutes_app \<notin> set interval_values"
    by (simp add: five_minutes_app_fields interval_values_def)
  have idle: "\<not> is_running five_minutes_app"
    by (simp add: five_minutes_app_fields)
  note st = start_auto_update_accepted [OF ne, of echo_env]
  have r: "is_running (start_auto_update echo_env five_minutes_app)"
    by (simp add: st is_running_auto_update_loop started_fields)
  have s: "sent (start_auto_update echo_env five_minutes_app) =
       [myip_request, dnsup_request ''a@b.com'' ''k1'' ''42'' ''203.0.113.5'']"
    by (simp add: st auto_update_loop_keeps sent_echo_run started_fields
        five_minutes_app_fields)
  from un idle r s show ?thesis by (intro conjI)
qed

text \<open>
  C4, as the code has it. \<^verbatim>\<open>start_auto_update\<close> does not look at the running flag: with
  a non-empty interval it does from Running exactly what it does from Idle. It logs the
  start (no error), performs an update operation at once and, for an enumerated
  interval, arms one more timer; a timer already pending stays in the queue. What keeps
  a second Start away is the window: every accepted Start leaves the Start button and
  the Update Now button disabled, and Stop enables them again.
\<close>

theorem start_while_running_not_rejected:
  assumes "interval_var a \<noteq> []"
  shows "start_auto_update e (a\<lparr>is_running := True\<rparr>) =
           start_auto_update e (a\<lparr>is_running := False\<rparr>)
         \<and> start_auto_update e a = auto_update_loop e (started e a)
         \<and> is_running (start_auto_update e a)
         \<and> sent (start_auto_update e a) = sent (perform_update e (started e a))
         \<and> timers (start_auto_update e a) =
             (if interval_var a \<in> set interval_values
              then timers a @ [(next_timer a, get_interval_ms a)] else timers a)
         \<and> start_button (start_auto_update e a) = Disabled
         \<and> manual_button (start_auto_update e a) = Disabled
         \<and> start_button (stop_auto_update e a) = Normal
         \<and> manual_button (stop_auto_update e a) = Normal"
proof -
  have 1: "start_auto_update e (a\<lparr>is_running := True\<rparr>) =
           start_auto_update e (a\<lparr>is_running := False\<rparr>)"
    using assms by (simp add: start_auto_update_accepted started_is_running_irrelevant)
  note st = start_auto_update_accepted [OF assms, of e]
  have 3: "is_running (start_auto_update e a)"
    by (simp add: st is_running_auto_update_loop started_fields)
  have 4: "sent (start_auto_update e a) = sent (perform_update e (started e a))"
    by (simp add: st auto_update_loop_keeps)
  have 5: "timers (start_auto_update e a) =
             (if interval_var a \<in> set interval_values
              then timers a @ [(next_timer a, get_interval_ms a)] else timers a)"
    by (simp add: st timers_auto_update_loop started_fields get_interval_ms_started
        get_interval_ms_pos)
  have 6: "start_button (start_auto_update e a) = Disabled"
    "manual_button (start_auto_update e a) = Disabled"
    by (simp_all add: st auto_update_loop_keeps started_fields)
  have 7: "start_button (stop_auto_update e a) = Normal"
    "manual_button (stop_auto_update e a) = Normal"
    by (simp_all add: stop_auto_update_def Let_def root_after_cancel_def
        set_controls_state_def log_message_def split: option.split)
  from 1 st 3 4 5 6 7 show ?thesis by (intro conjI)
qed

theorem start_while_running_not_rejected_witness:
  "interval_var (start_auto_update echo_env four_hours_app) \<noteq> []
   \<and> is_running (start_auto_update echo_env four_hours_app)
   \<and> start_button (start_auto_update echo_env four_hours_app) = Disabled
   \<and> timers (start_auto_update echo_env four_hours_app) = [(0, 14400000)]
   \<and> timers (start_auto_update echo_env (start_auto_update echo_env four_hours_app)) =
       [(0, 14400000), (1, 14400000)]
   \<and> start_button (start_auto_update echo_env (start_auto_update echo_env four_hours_app)) =
       Disabled"
proof -
  have ne: "interval_var four_hours_app \<noteq> []"
    by (simp add: four_hours_app_fields)
  note t1 = start_while_running_not_rejected [OF ne, of echo_env]
  have iv: "interval_var (start_auto_update echo_env four_hours_app) = ''4 hours''"
    by (simp add: start_auto_update_accepted [OF ne] auto_update_loop_keeps started_fields
        four_hours_app_fields)
  then have ne2: "interval_var (start_auto_update echo_env four_hours_app) \<noteq> []"
    by simp
  note t2 = start_while_running_not_rejected [OF ne2, of echo_env]
  have ms: "get_interval_ms four_hours_app = 14400000"
    "get_interval_ms (start_auto_update echo_env four_hours_app) = 14400000"
    by (simp_all add: get_interval_ms_cases iv four_hours_app_fields)
  have nt: "next_timer (start_auto_update echo_env four_hours_app) = 1"
    by (simp add: start_auto_update_accepted [OF ne] auto_update_loop_keeps started_fields
        get_interval_ms_started ms four_hours_app_fields)
  from t1 have r: "is_running (start_auto_update echo_env four_hours_app)"
    and b: "start_button (start_auto_update echo_env four_hours_app) = Disabled"
    and "timers (start_auto_update echo_env four_hours_app) =
             (if interval_var four_hours_app \<in> set interval_values
              then timers four_hours_app @ [(next_timer four_hours_app,
                get_interval_ms four_hours_app)] else timers four_hours_app)"
    by blast+
  then have tm: "timers (start_auto_update echo_env four_hours_app) = [(0, 14400000)]"
    by (simp add: interval_values_def ms four_hours_app_fields)
  from t2 have
    b2: "start_button (start_auto_update echo_env (start_auto_update echo_env four_hours_app)) =
       Disabled"
    and "timers (start_auto_update echo_env (start_auto_update echo_env four_hours_app)) =
             (if interval_var (start_auto_update echo_env four_hours_app) \<in> set interval_values
              then timers (start_auto_update echo_env four_hours_app)
                @ [(next_timer (start_auto_update echo_env four_hours_app),
                    get_interval_ms (start_auto_update echo_env four_hours_app))]
              else timers (start_auto_update echo_env four_hours_app))"
    by blast+
  then have tm2:
    "timers (start_auto_update echo_env (start_auto_update echo_env four_hours_app)) =
       [(0, 14400000), (1, 14400000)]"
    by (simp add: iv interval_values_def ms nt tm)
  from ne2 r b tm tm2 b2 show ?thesis by (intro conjI)
qed

text \<open>
  The claimed no-op fails: a second Start on the running scheduler arms a second timer
  next to the pending one and performs a second update operation (the update endpoint
  gets a second request).
\<close>

theorem start_while_running_counterexample:
  "is_running (start_auto_update echo_env four_hours_app)
   \<and> timers (start_auto_update echo_env four_hours_app) = [(0, 14400000)]
   \<and> length (update_requests (start_auto_update echo_env four_hours_app)) = 1
   \<and> timers (start_auto_update echo_env (start_auto_update echo_env four_hours_app)) =
       [(0, 14400000), (1, 14400000)]
   \<and> length (update_requests
        (start_auto_update echo_env (start_auto_update echo_env four_hours_app))) = 2"
proof -
  define s1 where "s1 = start_auto_update echo_env four_hours_app"
  have ne: "interval_var four_hours_app \<noteq> []"
    by (simp add: four_hours_app_fields)
  have ms: "get_interval_ms four_hours_app = 14400000"
    by (simp add: get_interval_ms_cases four_hours_app_fields)
  have s1: "s1 = auto_update_loop echo_env (started echo_env four_hours_app)"
    unfolding s1_def by (rule start_auto_update_accepted [OF ne])
  have f1: "interval_var s1 = ''4 hours''" "id_entry s1 = ''42''"
    "email_entry s1 = ''a@b.com''" "apikey_entry s1 = ''k1''" "is_running s1"
    "next_timer s1 = 1" "timers s1 = [(0, 14400000)]"
    by (simp_all add: s1 auto_update_loop_keeps is_running_auto_update_loop
        timers_auto_update_loop started_fields get_interval_ms_started ms
        four_hours_app_fields)
  have sent1: "sent s1 = [myip_request, dnsup_request ''a@b.com'' ''k1'' ''42'' ''203.0.113.5'']"
    by (simp add: s1 auto_update_loop_keeps sent_echo_run started_fields
        four_hours_app_fields)
  have ne1: "interval_var s1 \<noteq> []"
    by (simp add: f1)
  have ms1: "get_interval_ms s1 = 14400000"
    by (simp add: get_interval_ms_cases f1)
  have s2: "start_auto_update echo_env s1 = auto_update_loop echo_env (started echo_env s1)"
    by (rule start_auto_update_accepted [OF ne1])
  have tm2: "timers (start_auto_update echo_env s1) = [(0, 14400000), (1, 14400000)]"
    by (simp add: s2 timers_auto_update_loop started_fields get_interval_ms_started ms1 f1)
  have sent2: "sent (start_auto_update echo_env s1) =
      [myip_request, dnsup_request ''a@b.com'' ''k1'' ''42'' ''203.0.113.5'',
       myip_request, dnsup_request ''a@b.com'' ''k1'' ''42'' ''203.0.113.5'']"
    by (simp add: s2 auto_update_loop_keeps sent_echo_run started_fields f1 sent1)
  have u1: "length (update_requests s1) = 1"
    by (simp add: update_requests_def sent1 myip_request_def dnsup_request_def)
  have u2: "length (update_requests (start_auto_update echo_env s1)) = 2"
    by (simp add: update_requests_def sent2 myip_request_def dnsup_request_def)
  from f1(5) f1(7) u1 tm2 u2 show ?thesis
    unfolding s1_def by (intro conjI)
qed

lemma sixty_minutes_app_fields:
  "interval_var sixty_minutes_app = ''60 minutes''" "timers sixty_minutes_app = []"
  "next_timer sixty_minutes_app = 0" "id_entry sixty_minutes_app = ''42''"
  "email_entry sixty_minutes_app = ''a@b.com''" "apikey_entry sixty_minutes_app = ''k1''"
  "is_running sixty_minutes_app = False" "sent sixty_minutes_app = []"
  by (simp_all add: sixty_minutes_app_def example_app_fields)

lemma down_run:
  assumes "id_entry a \<noteq> []" "email_entry a \<noteq> []" "apikey_entry a \<noteq> []"
  shows "last (log_area (perform_update down_env a)) =
     ''[2025-10-16 12:00:00] ERROR: Could not get public IP. Details: Connection refused\<newline>''"
proof -
  have "perform_update down_env a =
     foldl (log_message down_env) (a\<lparr>sent := sent a @ [myip_request]\<rparr>)
       [''Fetching public IP address from api2.sitelutions.com/myip...'',
        ''ERROR: Could not get public IP. Details: '' @ ''Connection refused'']"
    using assms by (rule perform_update_resolver_raises) (rule down_env_fails)
  then show ?thesis
    by (simp add: log_simps down_env_def example_clock_def)
qed

text \<open>
  C9, as the code has it. Whatever the update operation of a cycle does (missing
  credentials, a failed resolve step, a failed update step, or success),
  \<^verbatim>\<open>auto_update_loop\<close> returns normally and the scheduler, if running, is still running
  afterwards; apart from the timer, the cycle changes only the log widget and the record
  of the requests sent, so a failure shows in the log alone. Whether the timer is
  re-armed depends on the interval, not on the outcome. With one of the enumerated
  intervals a new timer is armed with that interval's duration (60 minutes: 3600000 ms,
  4 hours: 14400000 ms, 6 hours: 21600000 ms, 24 hours: 86400000 ms), and when that
  timer fires the next cycle re-arms with the same duration. With any other interval
  (Start accepts every non-empty one) the cycle is the update operation alone: no timer
  is armed although the scheduler is running.
\<close>

theorem running_cycle_rearms_enumerated_interval:
  assumes "is_running a"
  shows "is_running (auto_update_loop e a)
         \<and> interval_var (auto_update_loop e a) = interval_var a
         \<and> perform_update e a =
             a\<lparr>log_area := log_area (perform_update e a), sent := sent (perform_update e a)\<rparr>
         \<and> get_interval_ms a =
             (if interval_var a = ''60 minutes'' then 3600000
              else if interval_var a = ''4 hours'' then 14400000
              else if interval_var a = ''6 hours'' then 21600000
              else if interval_var a = ''24 hours'' then 86400000 else 0)
         \<and> (interval_var a \<in> set interval_values \<longrightarrow>
               timers (auto_update_loop e a) = timers a @ [(next_timer a, get_interval_ms a)]
               \<and> after_id (auto_update_loop e a) = Some (next_timer a)
               \<and> auto_update_loop e a =
                   a\<lparr>log_area := log_area (perform_update e a),
                     sent := sent (perform_update e a),
                     timers := timers a @ [(next_timer a, get_interval_ms a)],
                     next_timer := Suc (next_timer a), after_id := Some (next_timer a)\<rparr>
               \<and> is_running (timer_fires e' (next_timer a) (auto_update_loop e a))
               \<and> last (timers (timer_fires e' (next_timer a) (auto_update_loop e a))) =
                   (Suc (next_timer a), get_interval_ms a))
         \<and> (interval_var a \<notin> set interval_values \<longrightarrow>
               auto_update_loop e a = perform_update e a
               \<and> timers (auto_update_loop e a) = timers a
               \<and> after_id (auto_update_loop e a) = after_id a)"
proof -
  have run: "is_running (auto_update_loop e a)"
    using assms by (simp add: is_running_auto_update_loop)
  have iv: "interval_var (auto_update_loop e a) = interval_var a"
    by (rule auto_update_loop_keeps)
  have known: "interval_var a \<in> set interval_values \<longrightarrow>
               timers (auto_update_loop e a) = timers a @ [(next_timer a, get_interval_ms a)]
               \<and> after_id (auto_update_loop e a) = Some (next_timer a)
               \<and> auto_update_loop e a =
                   a\<lparr>log_area := log_area (perform_update e a),
                     sent := sent (perform_update e a),
                     timers := timers a @ [(next_timer a, get_interval_ms a)],
                     next_timer := Suc (next_timer a), after_id := Some (next_timer a)\<rparr>
               \<and> is_running (timer_fires e' (next_timer a) (auto_update_loop e a))
               \<and> last (timers (timer_fires e' (next_timer a) (auto_update_loop e a))) =
                   (Suc (next_timer a), get_interval_ms a)"
  proof
    assume en: "interval_var a \<in> set interval_values"
    then have pos: "0 < get_interval_ms a"
      by (simp add: get_interval_ms_pos)
    have loop: "auto_update_loop e a =
        (perform_update e a)\<lparr>timers := timers a @ [(next_timer a, get_interval_ms a)],
           next_timer := Suc (next_timer a), after_id := Some (next_timer a)\<rparr>"
      using pos assms by (simp add: auto_update_loop_eq)
    have full: "auto_update_loop e a =
               a\<lparr>log_area := log_area (perform_update e a), sent := sent (perform_update e a),
                 timers := timers a @ [(next_timer a, get_interval_ms a)],
                 next_timer := Suc (next_timer a), after_id := Some (next_timer a)\<rparr>"
      by (subst loop, subst perform_update_frame) simp
    have ms: "get_interval_ms (auto_update_loop e a) = get_interval_ms a"
      by (simp add: get_interval_ms_def iv)
    have tm: "timers (auto_update_loop e a) = timers a @ [(next_timer a, get_interval_ms a)]"
      using pos assms by (simp add: timers_auto_update_loop)
    have nt: "next_timer (auto_update_loop e a) = Suc (next_timer a)"
      by (simp add: loop)
    have aid: "after_id (auto_update_loop e a) = Some (next_timer a)"
      by (simp add: loop)
    define b where "b = root_after_cancel (auto_update_loop e a) (next_timer a)"
    have b: "is_running b" "get_interval_ms b = get_interval_ms a"
      "next_timer b = Suc (next_timer a)"
      using run ms nt by (simp_all add: b_def root_after_cancel_def get_interval_ms_def)
    have fires: "timer_fires e' (next_timer a) (auto_update_loop e a) = auto_update_loop e' b"
      by (simp add: timer_fires_def tm b_def)
    have again: "is_running (auto_update_loop e' b)"
      "last (timers (auto_update_loop e' b)) = (Suc (next_timer a), get_interval_ms a)"
      using b pos by (simp_all add: is_running_auto_update_loop timers_auto_update_loop)
    from tm aid full again
    show "timers (auto_update_loop e a) = timers a @ [(next_timer a, get_interval_ms a)]
               \<and> after_id (auto_update_loop e a) = Some (next_timer a)
               \<and> auto_update_loop e a =
                   a\<lparr>log_area := log_area (perform_update e a),
                     sent := sent (perform_update e a),
                     timers := timers a @ [(next_timer a, get_interval_ms a)],
                     next_timer := Suc (next_timer a), after_id := Some (next_timer a)\<rparr>
               \<and> is_running (timer_fires e' (next_timer a) (auto_update_loop e a))
               \<and> last (timers (timer_fires e' (next_timer a) (auto_update_loop e a))) =
                   (Suc (next_timer a), get_interval_ms a)"
      unfolding fires by (intro conjI)
  qed
  have unknown: "interval_var a \<notin> set interval_values \<longrightarrow>
               auto_update_loop e a = perform_update e a
               \<and> timers (auto_update_loop e a) = timers a
               \<and> after_id (auto_update_loop e a) = after_id a"
    by (simp add: get_interval_ms_unknown auto_update_loop_eq perform_update_keeps)
  from run iv perform_update_frame [of e a] get_interval_ms_cases [of a] known unknown
  show ?thesis by (intro conjI)
qed

theorem running_cycle_rearms_enumerated_interval_witness:
  "is_running (started down_env four_hours_app)
   \<and> interval_var (started down_env four_hours_app) \<in> set interval_values
   \<and> last (log_area (auto_update_loop down_env (started down_env four_hours_app))) =
       ''[2025-10-16 12:00:00] ERROR: Could not get public IP. Details: Connection refused\<newline>''
   \<and> is_running (auto_update_loop down_env (started down_env four_hours_app))
   \<and> timers (auto_update_loop down_env (started down_env four_hours_app)) = [(0, 14400000)]
   \<and> after_id (auto_update_loop down_env (started down_env four_hours_app)) = Some 0
   \<and> is_running (started down_env sixty_minutes_app)
   \<and> interval_var (started down_env sixty_minutes_app) \<in> set interval_values
   \<and> timers (auto_update_loop down_env (started down_env sixty_minutes_app)) = [(0, 3600000)]
   \<and> is_running (started down_env five_minutes_app)
   \<and> interval_var (started down_env five_minutes_app) \<notin> set interval_values
   \<and> is_running (auto_update_loop down_env (started down_env five_minutes_app))
   \<and> timers (auto_update_loop down_env (started down_env five_minutes_app)) = []"
proof -
  have r4: "is_running (started down_env four_hours_app)"
    and r1: "is_running (started down_env sixty_minutes_app)"
    and r5: "is_running (started down_env five_minutes_app)"
    by (rule started_fields)+
  have i4: "interval_var (started down_env four_hours_app) \<in> set interval_values"
    by (simp add: started_fields four_hours_app_fields interval_values_def)
  have i1: "interval_var (started down_env sixty_minutes_app) \<in> set interval_values"
    by (simp add: started_fields sixty_minutes_app_fields interval_values_def)
  have i5: "interval_var (started down_env five_minutes_app) \<notin> set interval_values"
    by (simp add: started_fields five_minutes_app_fields interval_values_def)
  note t4 = running_cycle_rearms_enumerated_interval [OF r4, of down_env down_env]
  note t1 = running_cycle_rearms_enumerated_interval [OF r1, of down_env down_env]
  note t5 = running_cycle_rearms_enumerated_interval [OF r5, of down_env down_env]
  from t4 have ms4: "get_interval_ms (started down_env four_hours_app) = 14400000"
    by (simp add: started_fields four_hours_app_fields)
  from t1 have ms1: "get_interval_ms (started down_env sixty_minutes_app) = 3600000"
    by (simp add: started_fields sixty_minutes_app_fields)
  from t4 i4 have
    tm4: "timers (auto_update_loop down_env (started down_env four_hours_app)) =
       timers (started down_env four_hours_app)
         @ [(next_timer (started down_env four_hours_app),
             get_interval_ms (started down_env four_hours_app))]"
    and aid4: "after_id (auto_update_loop down_env (started down_env four_hours_app)) =
       Some (next_timer (started down_env four_hours_app))"
    by blast+
  from t1 i1 have
    tm1: "timers (auto_update_loop down_env (started down_env sixty_minutes_app)) =
       timers (started down_env sixty_minutes_app)
         @ [(next_timer (started down_env sixty_minutes_app),
             get_interval_ms (started down_env sixty_minutes_app))]"
    by blast
  from t5 i5 have
    tm5: "timers (auto_update_loop down_env (started down_env five_minutes_app)) =
       timers (started down_env five_minutes_app)"
    by blast
  have l: "last (log_area (auto_update_loop down_env (started down_env four_hours_app))) =
       ''[2025-10-16 12:00:00] ERROR: Could not get public IP. Details: Connection refused\<newline>''"
    by (simp add: auto_update_loop_keeps down_run started_fields four_hours_app_fields)
  have a4: "timers (auto_update_loop down_env (started down_env four_hours_app)) =
      [(0, 14400000)]"
    unfolding tm4 ms4 by (simp add: started_fields four_hours_app_fields)
  have b4: "after_id (auto_update_loop down_env (started down_env four_hours_app)) = Some 0"
    unfolding aid4 by (simp add: started_fields four_hours_app_fields)
  have a1: "timers (auto_update_loop down_env (started down_env sixty_minutes_app)) =
      [(0, 3600000)]"
    unfolding tm1 ms1 by (simp add: started_fields sixty_minutes_app_fields)
  have a5: "timers (auto_update_loop down_env (started down_env five_minutes_app)) = []"
    unfolding tm5 by (simp add: started_fields five_minutes_app_fields)
  from r4 i4 l t4 [THEN conjunct1] a4 b4 r1 i1 a1 r5 i5 t5 [THEN conjunct1] a5
  show ?thesis by (intro conjI)
qed

text \<open>
  The claimed re-arming while the scheduler is running fails when the interval is not an
  enumerated one: Start with 5 minutes leaves the scheduler running, and a cycle whose
  resolve step fails arms no timer.
\<close>

theorem running_unknown_interval_counterexample:
  "is_running (start_auto_update down_env five_minutes_app)
   \<and> is_running (auto_update_loop down_env (start_auto_update down_env five_minutes_app))
   \<and> last (log_area (auto_update_loop down_env (start_auto_update down_env five_minutes_app))) =
       ''[2025-10-16 12:00:00] ERROR: Could not get public IP. Details: Connection refused\<newline>''
   \<and> timers (auto_update_loop down_env (start_auto_update down_env five_minutes_app)) = []
   \<and> after_id (auto_update_loop down_env (start_auto_update down_env five_minutes_app)) = None"
proof -
  define s where "s = start_auto_update down_env five_minutes_app"
  have ne: "interval_var five_minutes_app \<noteq> []"
    by (simp add: five_minutes_app_fields)
  have s: "s = auto_update_loop down_env (started down_env five_minutes_app)"
    unfolding s_def by (rule start_auto_update_accepted [OF ne])
  have z: "get_interval_ms (started down_env five_minutes_app) = 0"
    by (simp add: get_interval_ms_cases started_fields five_minutes_app_fields)
  have n: "after_id five_minutes_app = None"
    by (simp add: five_minutes_app_def example_app_fields)
  have f: "is_running s" "interval_var s = ''5 minutes''" "timers s = []"
    "after_id s = None" "id_entry s = ''42''" "email_entry s = ''a@b.com''"
    "apikey_entry s = ''k1''"
    by (simp_all add: s is_running_auto_update_loop auto_update_loop_keeps
        timers_auto_update_loop auto_update_loop_eq z n perform_update_keeps started_fields
        five_minutes_app_fields)
  have z2: "get_interval_ms s = 0"
    by (simp add: get_interval_ms_cases f)
  have r: "is_running (auto_update_loop down_env s)"
    by (simp add: is_running_auto_update_loop f)
  have l: "last (log_area (auto_update_loop down_env s)) =
       ''[2025-10-16 12:00:00] ERROR: Could not get public IP. Details: Connection refused\<newline>''"
    by (simp add: auto_update_loop_keeps down_run f)
  have t: "timers (auto_update_loop down_env s) = []"
    by (simp add: timers_auto_update_loop z2 f)
  have a: "after_id (auto_update_loop down_env s) = None"
    by (simp add: auto_update_loop_eq z2 perform_update_keeps f)
  from f(1) r l t a show ?thesis
    unfolding s_def by (intro conjI)
qed

end
